theory Spec2Isabelle
  imports Complex_Main "HOL-Library.AList"
begin

section \<open>Python values and containers\<close>

text \<open>
  The program is Python. Its dictionaries keep insertion order, so a dictionary is an
  association list: a lookup is \<open>map_of\<close>, an assignment \<open>d[k] = v\<close> replaces the
  value in place when the key is there and appends the pair otherwise, which is
  \<open>AList.update\<close>. Exceptions are values of the type \<open>error\<close>; a function that can
  raise returns \<open>error + 'a\<close>. Floats are modelled by the reals: every float product
  the theorems below evaluate is a multiplication by a power of two of a small number,
  which IEEE doubles compute exactly, and the one quotient of the program, of an integer
  by a power of two, is rounded as Python rounds it (\<open>int_truediv_pow2\<close> below). Console logging is not part
  of the model; every other effect is.
\<close>

type_synonym UUID = string
type_synonym datetime = int
type_synonym ('k, 'v) dict = "('k \<times> 'v) list"

datatype error =
    KeyError string
  | ValueError string
  | NameError string
  | AttributeError string
  | TypeError string
  | OverflowError string
  | Exception string

definition dict_get :: "('k, 'v) dict \<Rightarrow> 'k \<Rightarrow> 'v option" where
  "dict_get d k = map_of d k"

definition dict_set :: "('k, 'v) dict \<Rightarrow> 'k \<Rightarrow> 'v \<Rightarrow> ('k, 'v) dict" where
  "dict_set d k v = AList.update k v d"

definition dict_keys :: "('k, 'v) dict \<Rightarrow> 'k list" where
  "dict_keys d = map fst d"

definition dict_values :: "('k, 'v) dict \<Rightarrow> 'v list" where
  "dict_values d = map snd d"

text \<open>\<open>d[k]\<close>: a missing key raises \<open>KeyError\<close>.\<close>

definition dict_item :: "(string, 'v) dict \<Rightarrow> string \<Rightarrow> error + 'v" where
  "dict_item d k = (case dict_get d k of None \<Rightarrow> Inl (KeyError k) | Some v \<Rightarrow> Inr v)"

text \<open>
  \<open>set(a) - set(b)\<close> and \<open>set(a) & set(b)\<close>. Python leaves the iteration order of a
  set open; the model iterates in the order of the first operand, and no theorem below
  depends on that order.
\<close>

definition set_difference :: "'a list \<Rightarrow> 'a list \<Rightarrow> 'a list" where
  "set_difference xs ys = [x \<leftarrow> remdups xs. x \<notin> set ys]"

definition set_intersection :: "'a list \<Rightarrow> 'a list \<Rightarrow> 'a list" where
  "set_intersection xs ys = [x \<leftarrow> remdups xs. x \<in> set ys]"

text \<open>
  A \<open>for\<close> loop whose body may raise: the loop state is threaded through the body and
  the first exception ends the loop.
\<close>

fun for_loop :: "('a \<Rightarrow> 's \<Rightarrow> error + 's) \<Rightarrow> 'a list \<Rightarrow> 's \<Rightarrow> error + 's" where
  "for_loop body [] s = Inr s"
| "for_loop body (x # xs) s =
     (case body x s of Inl e \<Rightarrow> Inl e | Inr s' \<Rightarrow> for_loop body xs s')"

definition bind_result :: "error + 'a \<Rightarrow> ('a \<Rightarrow> error + 'b) \<Rightarrow> error + 'b" where
  "bind_result r f = (case r of Inl e \<Rightarrow> Inl e | Inr x \<Rightarrow> f x)"

text \<open>Truth values of Python objects, as \<open>if x\<close> and \<open>not x\<close> read them.\<close>

definition truthy_int :: "int option \<Rightarrow> bool" where
  "truthy_int x = (case x of None \<Rightarrow> False | Some n \<Rightarrow> n \<noteq> 0)"

definition truthy_str :: "string option \<Rightarrow> bool" where
  "truthy_str x = (case x of None \<Rightarrow> False | Some s \<Rightarrow> s \<noteq> [])"

definition truthy_float :: "real \<Rightarrow> bool" where
  "truthy_float x = (x \<noteq> 0)"

text \<open>\<open>int(x)\<close> of a float truncates towards zero.\<close>

definition py_int :: "real \<Rightarrow> int" where
  "py_int x = (if 0 \<le> x then \<lfloor>x\<rfloor> else \<lceil>x\<rceil>)"

definition startswith :: "string \<Rightarrow> string \<Rightarrow> bool" where
  "startswith s p = (take (length p) s = p)"

definition endswith :: "string \<Rightarrow> string \<Rightarrow> bool" where
  "endswith s p = (length p \<le> length s \<and> drop (length s - length p) s = p)"

text \<open>\<open>sub in s\<close> on strings.\<close>

fun str_contains :: "string \<Rightarrow> string \<Rightarrow> bool" where
  "str_contains sub [] = (sub = [])"
| "str_contains sub (c # cs) = (startswith (c # cs) sub \<or> str_contains sub cs)"

text \<open>\<open>str(n)\<close> of an integer, as an f-string formats it.\<close>

fun str_of_nat :: "nat \<Rightarrow> string" where
  "str_of_nat n =
     (if n < 10 then [char_of (48 + n)]
      else str_of_nat (n div 10) @ [char_of (48 + n mod 10)])"

definition str_of_int :: "int \<Rightarrow> string" where
  "str_of_int i = (if i < 0 then CHR ''-'' # str_of_nat (nat (- i)) else str_of_nat (nat i))"

text \<open>
  \<open>n / 2 ** k\<close> on integers. Python's true division of two integers returns the double
  nearest to the exact quotient, ties going to the even neighbour, and raises
  \<open>OverflowError\<close> when that exceeds the range of a double. A division by a power of two
  changes the exponent only, so the result is \<open>n\<close> rounded to 53 significant bits,
  divided by \<open>2 ^ k\<close>. (The quotient of an integer by \<open>2 ^ k\<close> for the small \<open>k\<close> of
  this program is never subnormal.)
\<close>

fun bit_length :: "nat \<Rightarrow> nat" where
  "bit_length n = (if n = 0 then 0 else Suc (bit_length (n div 2)))"

definition round_sig53 :: "int \<Rightarrow> int" where
  "round_sig53 n =
     (let a = nat \<bar>n\<bar>; s = bit_length a - 53
      in if s = 0 then n
         else let q = a div 2 ^ s; r = a mod 2 ^ s; half = 2 ^ (s - 1);
                  q' = (if half < r \<or> (r = half \<and> odd q) then q + 1 else q)
              in sgn n * int (q' * 2 ^ s))"

definition int_truediv_pow2 :: "int \<Rightarrow> nat \<Rightarrow> error + real" where
  "int_truediv_pow2 n k =
     (let m = round_sig53 n
      in if 2 ^ (1024 + k) \<le> \<bar>m\<bar>
         then Inl (OverflowError ''integer division result too large for a float'')
         else Inr (real_of_int m / 2 ^ k))"

section \<open>constants.py\<close>

definition POSIX_AG_PREFIX :: string where "POSIX_AG_PREFIX = ''hpc-ag-''"
definition POSIX_PROJECT_PREFIX :: string where "POSIX_PROJECT_PREFIX = ''hpc-prj-''"
definition BASE_PATH_TIER1 :: string where "BASE_PATH_TIER1 = ''/data/cephfs-1''"
definition BASE_PATH_TIER2 :: string where "BASE_PATH_TIER2 = ''/data/cephfs-2''"
definition BASE_DN_GROUPS :: string where
  "BASE_DN_GROUPS = ''ou=Teams,ou=Groups,dc=hpc,dc=bihealth,dc=org''"
definition BASE_DN_PROJECTS :: string where
  "BASE_DN_PROJECTS = ''ou=Projects,ou=Groups,dc=hpc,dc=bihealth,dc=org''"
definition BASE_DN_CHARITE :: string where
  "BASE_DN_CHARITE = ''ou=Charite,ou=Users,dc=hpc,dc=bihealth,dc=org''"
definition BASE_DN_MDC :: string where
  "BASE_DN_MDC = ''ou=MDC,ou=Users,dc=hpc,dc=bihealth,dc=org''"
definition QUOTA_HOME_BYTES :: int where "QUOTA_HOME_BYTES = 1024 * 1024 * 1024"
definition HPC_ALUMNIS_GROUP :: string where "HPC_ALUMNIS_GROUP = ''hpc-alumnis''"
definition HPC_ALUMNIS_GID :: int where "HPC_ALUMNIS_GID = 1030001"
definition HPC_USERS_GID :: int where "HPC_USERS_GID = 1005269"
definition ENTITY_USERS :: string where "ENTITY_USERS = ''users''"
definition ENTITY_GROUPS :: string where "ENTITY_GROUPS = ''groups''"
definition ENTITY_PROJECTS :: string where "ENTITY_PROJECTS = ''projects''"
definition ENTITIES :: "string list" where
  "ENTITIES = [ENTITY_USERS, ENTITY_GROUPS, ENTITY_PROJECTS]"

definition CEPHFS_TIER_MAPPING :: "(string \<times> string \<times> string, string) dict" where
  "CEPHFS_TIER_MAPPING =
    [((''cephfs-1'', ''home'', ''users''), ''tier1_home''),
     ((''cephfs-1'', ''work'', ''projects''), ''tier1_work''),
     ((''cephfs-1'', ''work'', ''groups''), ''tier1_work''),
     ((''cephfs-1'', ''scratch'', ''projects''), ''tier1_scratch''),
     ((''cephfs-1'', ''scratch'', ''groups''), ''tier1_scratch''),
     ((''cephfs-2'', ''unmirrored'', ''projects''), ''tier2_unmirrored''),
     ((''cephfs-2'', ''unmirrored'', ''groups''), ''tier2_unmirrored''),
     ((''cephfs-2'', ''mirrored'', ''projects''), ''tier2_mirrored''),
     ((''cephfs-2'', ''mirrored'', ''groups''), ''tier2_mirrored'')]"

definition PREFIX_MAPPING :: "(string, string) dict" where
  "PREFIX_MAPPING = [(''projects'', POSIX_PROJECT_PREFIX), (''groups'', POSIX_AG_PREFIX)]"

section \<open>models.py\<close>

definition LOGIN_SHELL_DISABLED :: string where
  "LOGIN_SHELL_DISABLED = ''/usr/sbin/nologin''"

record FsDirectory =
  path :: string
  owner_name :: string
  owner_uid :: int
  group_name :: string
  group_gid :: int
  perms :: string
  rbytes :: "int option"
  rfiles :: "int option"
  quota_bytes :: "int option"
  quota_files :: "int option"

record Gecos =
  full_name :: "string option"
  office_location :: "string option"
  office_phone :: "string option"
  home_phone :: "string option"
  other :: "string option"

record LdapUser =
  cn :: string
  dn :: string
  uid :: string
  mail :: "string option"
  sn :: "string option"
  given_name :: "string option"
  uid_number :: int
  gid_number :: "int option"
  home_directory :: string
  login_shell :: string
  gecos :: "Gecos option"
  ssh_public_key :: "string list"

record LdapGroup =
  cn :: string
  dn :: string
  gid_number :: int
  description :: "string option"
  owner_dn :: "string option"
  delegate_dns :: "string list"
  member_uids :: "string list"

record ResourceData =
  tier1_work :: real
  tier1_scratch :: real
  tier2_mirrored :: real
  tier2_unmirrored :: real

record ResourceDataUser =
  tier1_home :: real

text \<open>
  The usage-sync command assigns a plain dictionary to \<open>resources_used\<close>, which the
  class declares as an optional model; the field holds either.
\<close>

datatype 'm resources = Model 'm | Plain "(string, real) dict"

record GroupFolders =
  tier1_work :: string
  tier1_scratch :: string
  tier2_mirrored :: string
  tier2_unmirrored :: string

datatype Status = INITIAL | ACTIVE | DELETED | EXPIRED

record HpcUser =
  uuid :: UUID
  primary_group :: "UUID option"
  description :: "string option"
  email :: "string option"
  full_name :: string
  first_name :: "string option"
  last_name :: "string option"
  phone_number :: "string option"
  resources_requested :: "ResourceDataUser option"
  resources_used :: "ResourceDataUser resources option"
  status :: Status
  uid :: int
  username :: string
  expiration :: datetime
  home_directory :: string
  login_shell :: string
  current_version :: int

record HpcGroup =
  uuid :: UUID
  owner :: UUID
  description :: "string option"
  delegate :: "UUID option"
  resources_requested :: "ResourceData option"
  resources_used :: "ResourceData resources option"
  status :: Status
  gid :: "int option"
  name :: string
  folders :: GroupFolders
  expiration :: datetime
  current_version :: int

record HpcProject =
  uuid :: UUID
  group :: "UUID option"
  description :: "string option"
  delegate :: "UUID option"
  resources_requested :: "ResourceData option"
  resources_used :: "ResourceData resources option"
  status :: Status
  gid :: "int option"
  name :: string
  folders :: GroupFolders
  expiration :: datetime
  current_version :: int
  members :: "UUID list"

record SystemState =
  ldap_users :: "(string, LdapUser) dict"
  ldap_groups :: "(string, LdapGroup) dict"
  fs_directories :: "(string, FsDirectory) dict"

record HpcaccessState =
  hpc_users :: "(UUID, HpcUser) dict"
  hpc_groups :: "(UUID, HpcGroup) dict"
  hpc_projects :: "(UUID, HpcProject) dict"

datatype StateOperation = CREATE | UPDATE | DISABLE

text \<open>
  The values a diff carries. Python's \<open>None\<close> is the \<open>None\<close> of an option, so the
  diff of a directory (\<open>Dict[str, None | int | str]\<close>) maps to \<open>fs_value option\<close> and
  the diff of an account or a group
  (\<open>Dict[str, None | int | str | List[str] | Dict[str, Any]]\<close>) to \<open>ldap_value option\<close>;
  the only nested dictionary is the dump of a \<open>Gecos\<close>, whose values are optional
  strings.
\<close>

datatype fs_value = FInt int | FStr string

datatype ldap_value =
    VInt int
  | VStr string
  | VList "string list"
  | VDict "(string, string option) dict"

record FsDirectoryOp =
  operation :: StateOperation
  directory :: FsDirectory
  diff :: "(string, fs_value option) dict"

record LdapUserOp =
  operation :: StateOperation
  user :: LdapUser
  diff :: "(string, ldap_value option) dict"

record LdapGroupOp =
  operation :: StateOperation
  group :: LdapGroup
  diff :: "(string, ldap_value option) dict"

record OperationsContainer =
  ldap_user_ops :: "LdapUserOp list"
  ldap_group_ops :: "LdapGroupOp list"
  fs_ops :: "FsDirectoryOp list"

section \<open>states.py: the comparison of two system states\<close>

text \<open>
  \<open>model_dump()\<close> turns a record into a dictionary from field names to values, in the
  order the class declares the fields.
\<close>

definition Gecos_model_dump :: "Gecos \<Rightarrow> (string, string option) dict" where
  "Gecos_model_dump g =
    [(''full_name'', Gecos.full_name g),
     (''office_location'', office_location g),
     (''office_phone'', office_phone g),
     (''home_phone'', home_phone g),
     (''other'', other g)]"

definition FsDirectory_model_dump :: "FsDirectory \<Rightarrow> (string, fs_value option) dict" where
  "FsDirectory_model_dump d =
    [(''path'', Some (FStr (path d))),
     (''owner_name'', Some (FStr (owner_name d))),
     (''owner_uid'', Some (FInt (owner_uid d))),
     (''group_name'', Some (FStr (group_name d))),
     (''group_gid'', Some (FInt (group_gid d))),
     (''perms'', Some (FStr (perms d))),
     (''rbytes'', map_option FInt (rbytes d)),
     (''rfiles'', map_option FInt (rfiles d)),
     (''quota_bytes'', map_option FInt (quota_bytes d)),
     (''quota_files'', map_option FInt (quota_files d))]"

definition LdapUser_model_dump :: "LdapUser \<Rightarrow> (string, ldap_value option) dict" where
  "LdapUser_model_dump u =
    [(''cn'', Some (VStr (LdapUser.cn u))),
     (''dn'', Some (VStr (LdapUser.dn u))),
     (''uid'', Some (VStr (LdapUser.uid u))),
     (''mail'', map_option VStr (mail u)),
     (''sn'', map_option VStr (sn u)),
     (''given_name'', map_option VStr (given_name u)),
     (''uid_number'', Some (VInt (uid_number u))),
     (''gid_number'', map_option VInt (LdapUser.gid_number u)),
     (''home_directory'', Some (VStr (LdapUser.home_directory u))),
     (''login_shell'', Some (VStr (LdapUser.login_shell u))),
     (''gecos'', map_option (\<lambda>g. VDict (Gecos_model_dump g)) (gecos u)),
     (''ssh_public_key'', Some (VList (ssh_public_key u)))]"

definition LdapGroup_model_dump :: "LdapGroup \<Rightarrow> (string, ldap_value option) dict" where
  "LdapGroup_model_dump g =
    [(''cn'', Some (VStr (LdapGroup.cn g))),
     (''dn'', Some (VStr (LdapGroup.dn g))),
     (''gid_number'', Some (VInt (LdapGroup.gid_number g))),
     (''description'', map_option VStr (LdapGroup.description g)),
     (''owner_dn'', map_option VStr (owner_dn g)),
     (''delegate_dns'', Some (VList (delegate_dns g))),
     (''member_uids'', Some (VList (member_uids g)))]"

text \<open>\<open>d.get(key)\<close> on a dumped record: \<open>None\<close> when the key is missing.\<close>

definition dump_get :: "(string, 'v option) dict \<Rightarrow> string \<Rightarrow> 'v option" where
  "dump_get d key = (case dict_get d key of None \<Rightarrow> None | Some v \<Rightarrow> v)"

text \<open>
  The loop that fills \<open>diff\<close>: for each key of \<open>keys\<close> whose values differ, the
  desired value is stored under that key.
\<close>

definition diff_over ::
  "string list \<Rightarrow> (string, 'v option) dict \<Rightarrow> (string, 'v option) dict \<Rightarrow> (string, 'v option) dict"
where
  "diff_over keys src_dict dst_dict =
     foldl (\<lambda>diff key.
              if dump_get src_dict key \<noteq> dump_get dst_dict key
              then dict_set diff key (dump_get dst_dict key) else diff)
           [] keys"

definition compare_ldap_users :: "SystemState \<Rightarrow> SystemState \<Rightarrow> error + LdapUserOp list" where
  "compare_ldap_users src dst =
    (let extra_usernames =
           set_difference (dict_keys (ldap_users src)) (dict_keys (ldap_users dst));
         missing_usernames =
           set_difference (dict_keys (ldap_users dst)) (dict_keys (ldap_users src));
         common_usernames =
           set_intersection (dict_keys (ldap_users src)) (dict_keys (ldap_users dst))
     in
     bind_result
       (for_loop (\<lambda>username result.
          bind_result (dict_item (ldap_users src) username) (\<lambda>user.
            Inr (result @ [\<lparr>LdapUserOp.operation = DISABLE, user = user, diff = []\<rparr>])))
          extra_usernames []) (\<lambda>result.
     bind_result
       (for_loop (\<lambda>username result.
          bind_result (dict_item (ldap_users src) username) (\<lambda>user.
            Inr (result @ [\<lparr>LdapUserOp.operation = CREATE, user = user, diff = []\<rparr>])))
          missing_usernames result) (\<lambda>result.
     for_loop (\<lambda>username result.
          bind_result (dict_item (ldap_users src) username) (\<lambda>src_user.
          bind_result (dict_item (ldap_users dst) username) (\<lambda>dst_user.
            let src_user_dict = LdapUser_model_dump src_user;
                dst_user_dict = LdapUser_model_dump dst_user;
                all_keys = remdups (dict_keys src_user_dict @ dict_keys dst_user_dict)
            in if src_user_dict \<noteq> dst_user_dict
               then Inr (result @ [\<lparr>LdapUserOp.operation = UPDATE, user = src_user,
                                     diff = diff_over all_keys src_user_dict dst_user_dict\<rparr>])
               else Inr result)))
          common_usernames result)))"

definition compare_ldap_groups :: "SystemState \<Rightarrow> SystemState \<Rightarrow> error + LdapGroupOp list" where
  "compare_ldap_groups src dst =
    (let extra_group_names =
           set_difference (dict_keys (ldap_groups src)) (dict_keys (ldap_groups dst));
         missing_group_names =
           set_difference (dict_keys (ldap_groups dst)) (dict_keys (ldap_groups src));
         common_group_names =
           set_intersection (dict_keys (ldap_groups src)) (dict_keys (ldap_groups dst))
     in
     bind_result
       (for_loop (\<lambda>name result.
          bind_result (dict_item (ldap_groups src) name) (\<lambda>group.
            Inr (result @ [\<lparr>LdapGroupOp.operation = DISABLE, group = group, diff = []\<rparr>])))
          extra_group_names []) (\<lambda>result.
     bind_result
       (for_loop (\<lambda>name result.
          bind_result (dict_item (ldap_groups dst) name) (\<lambda>group.
            Inr (result @ [\<lparr>LdapGroupOp.operation = CREATE, group = group, diff = []\<rparr>])))
          missing_group_names result) (\<lambda>result.
     for_loop (\<lambda>name result.
          bind_result (dict_item (ldap_groups src) name) (\<lambda>src_group.
          bind_result (dict_item (ldap_groups dst) name) (\<lambda>dst_group.
            let src_group_dict = LdapGroup_model_dump src_group;
                dst_group_dict = LdapGroup_model_dump dst_group;
                all_keys = remdups (dict_keys src_group_dict @ dict_keys dst_group_dict)
            in if src_group_dict \<noteq> dst_group_dict
               then Inr (result @ [\<lparr>LdapGroupOp.operation = UPDATE, group = src_group,
                                     diff = diff_over all_keys src_group_dict dst_group_dict\<rparr>])
               else Inr result)))
          common_group_names result)))"

definition compare_fs_directories :: "SystemState \<Rightarrow> SystemState \<Rightarrow> error + FsDirectoryOp list" where
  "compare_fs_directories src dst =
    (let extra_paths =
           set_difference (dict_keys (fs_directories src)) (dict_keys (fs_directories dst));
         missing_paths =
           set_difference (dict_keys (fs_directories dst)) (dict_keys (fs_directories src));
         common_paths =
           set_intersection (dict_keys (fs_directories src)) (dict_keys (fs_directories dst))
     in
     bind_result
       (for_loop (\<lambda>path result.
          bind_result (dict_item (fs_directories src) path) (\<lambda>directory.
            Inr (result @ [\<lparr>FsDirectoryOp.operation = DISABLE, directory = directory, diff = []\<rparr>])))
          extra_paths []) (\<lambda>result.
     bind_result
       (for_loop (\<lambda>path result.
          bind_result (dict_item (fs_directories dst) path) (\<lambda>directory.
            Inr (result @ [\<lparr>FsDirectoryOp.operation = CREATE, directory = directory, diff = []\<rparr>])))
          missing_paths result) (\<lambda>result.
     for_loop (\<lambda>path result.
          bind_result (dict_item (fs_directories src) path) (\<lambda>src_directory.
          bind_result (dict_item (fs_directories dst) path) (\<lambda>dst_directory.
            let src_directory_dict = FsDirectory_model_dump src_directory;
                dst_directory_dict = FsDirectory_model_dump dst_directory
            in if src_directory_dict \<noteq> dst_directory_dict
               then Inr (result @ [\<lparr>FsDirectoryOp.operation = UPDATE, directory = src_directory,
                   diff = diff_over [''owner_uid'', ''owner_gid'', ''perms'', ''quota_bytes'', ''quota_files'']
                            src_directory_dict dst_directory_dict\<rparr>])
               else Inr result)))
          common_paths result)))"

text \<open>\<open>TargetStateComparison.run\<close>\<close>

definition TargetStateComparison_run :: "SystemState \<Rightarrow> SystemState \<Rightarrow> error + OperationsContainer" where
  "TargetStateComparison_run src dst =
     bind_result (compare_ldap_users src dst) (\<lambda>user_ops.
     bind_result (compare_ldap_groups src dst) (\<lambda>group_ops.
     bind_result (compare_fs_directories src dst) (\<lambda>dir_ops.
       Inr \<lparr>ldap_user_ops = user_ops, ldap_group_ops = group_ops, fs_ops = dir_ops\<rparr>)))"

section \<open>states.py: building the target state\<close>

definition strip_prefix :: "string \<Rightarrow> string option \<Rightarrow> string" where
  "strip_prefix = (\<lambda>name prefix.
     (if truthy_str prefix then
        (case prefix of
           Some p \<Rightarrow> if startswith name p then drop (length p) name else name
         | None \<Rightarrow> name)
      else if startswith name POSIX_AG_PREFIX then drop (length POSIX_AG_PREFIX) name
      else if startswith name POSIX_PROJECT_PREFIX then drop (length POSIX_PROJECT_PREFIX) name
      else name))"

definition user_dn :: "HpcUser \<Rightarrow> string" where
  "user_dn = (\<lambda>user.
     (if endswith (username user) ''_m''
      then ''cn='' @ HpcUser.full_name user @ '','' @ BASE_DN_MDC
      else ''cn='' @ HpcUser.full_name user @ '','' @ BASE_DN_CHARITE))"

text \<open>\<open>TargetStateBuilder._get_next_gid\<close>\<close>

definition get_next_gid :: "SystemState \<Rightarrow> int" where
  "get_next_gid system_state =
     (let gids = map LdapGroup.gid_number (dict_values (ldap_groups system_state))
                 @ concat (map (\<lambda>u. if truthy_int (LdapUser.gid_number u)
                                       then [the (LdapUser.gid_number u)] else [])
                               (dict_values (ldap_users system_state)))
      in if gids \<noteq> [] then Max (set gids) + 1 else 1000)"

text \<open>
  \<open>TargetStateBuilder._build_ldap_groups\<close>. The two loops assign to \<open>group.gid\<close> and
  \<open>project.gid\<close>, that is, they change the records of the registry snapshot, and they
  advance \<open>self.next_gid\<close>; each loop returns the changed records, the counter and the
  dictionary of groups built so far.
\<close>

fun build_ldap_groups_groups ::
  "(UUID, HpcUser) dict \<Rightarrow> (UUID \<times> HpcGroup) list \<Rightarrow> int \<Rightarrow> (string, LdapGroup) dict
   \<Rightarrow> error + ((UUID \<times> HpcGroup) list \<times> int \<times> (string, LdapGroup) dict)"
where
  "build_ldap_groups_groups users [] next_gid result = Inr ([], next_gid, result)"
| "build_ldap_groups_groups users ((key, group0) # rest) next_gid0 result =
     (let (group, next_gid) =
            (if \<not> truthy_int (HpcGroup.gid group0)
             then (group0\<lparr>HpcGroup.gid := Some next_gid0\<rparr>, next_gid0 + 1)
             else (group0, next_gid0));
          group_dn = ''cn='' @ POSIX_AG_PREFIX @ HpcGroup.name group @ '','' @ BASE_DN_GROUPS
      in
      bind_result (dict_item users (owner group)) (\<lambda>owner.
      bind_result (case HpcGroup.delegate group of
                     None \<Rightarrow> Inr None
                   | Some d \<Rightarrow> bind_result (dict_item users d) (\<lambda>u. Inr (Some u))) (\<lambda>delegate.
        let group_name = POSIX_AG_PREFIX @ HpcGroup.name group;
            ldap_group = \<lparr>LdapGroup.cn = group_name,
                          dn = group_dn,
                          gid_number = the (HpcGroup.gid group),
                          description = HpcGroup.description group,
                          owner_dn = Some (user_dn owner),
                          delegate_dns = (case delegate of None \<Rightarrow> [] | Some u \<Rightarrow> [user_dn u]),
                          member_uids = []\<rparr>
        in
        bind_result (build_ldap_groups_groups users rest next_gid (dict_set result group_name ldap_group))
          (\<lambda>(groups, next_gid', result'). Inr ((key, group) # groups, next_gid', result')))))"

fun build_ldap_groups_projects ::
  "(UUID, HpcUser) dict \<Rightarrow> (UUID, HpcGroup) dict \<Rightarrow> (UUID \<times> HpcProject) list \<Rightarrow> int
   \<Rightarrow> (string, LdapGroup) dict
   \<Rightarrow> error + ((UUID \<times> HpcProject) list \<times> int \<times> (string, LdapGroup) dict)"
where
  "build_ldap_groups_projects users groups [] next_gid result = Inr ([], next_gid, result)"
| "build_ldap_groups_projects users groups ((key, project0) # rest) next_gid0 result =
     (let (project, next_gid) =
            (if \<not> truthy_int (HpcProject.gid project0)
             then (project0\<lparr>HpcProject.gid := Some next_gid0\<rparr>, next_gid0 + 1)
             else (project0, next_gid0));
          group_dn = ''cn='' @ POSIX_PROJECT_PREFIX @ HpcProject.name project @ '','' @ BASE_DN_PROJECTS
      in
      bind_result (case HpcProject.group project of
                     Some g \<Rightarrow>
                       bind_result (dict_item groups g) (\<lambda>owning_group.
                       bind_result (dict_item users (owner owning_group)) (\<lambda>owner.
                         Inr (Some (user_dn owner))))
                   | None \<Rightarrow> Inr None) (\<lambda>owner_dn.
      bind_result (case HpcProject.delegate project of
                     None \<Rightarrow> Inr None
                   | Some d \<Rightarrow> bind_result (dict_item users d) (\<lambda>u. Inr (Some u))) (\<lambda>delegate.
        let project_name = POSIX_PROJECT_PREFIX @ HpcProject.name project;
            ldap_group = \<lparr>LdapGroup.cn = project_name,
                          dn = group_dn,
                          gid_number = the (HpcProject.gid project),
                          description = HpcProject.description project,
                          owner_dn = owner_dn,
                          delegate_dns = (case delegate of None \<Rightarrow> [] | Some u \<Rightarrow> [user_dn u]),
                          member_uids = []\<rparr>
        in
        bind_result (build_ldap_groups_projects users groups rest next_gid
                       (dict_set result project_name ldap_group))
          (\<lambda>(projects, next_gid', result'). Inr ((key, project) # projects, next_gid', result')))))"

definition build_ldap_groups ::
  "HpcaccessState \<Rightarrow> int \<Rightarrow> error + (HpcaccessState \<times> int \<times> (string, LdapGroup) dict)"
where
  "build_ldap_groups state next_gid =
     bind_result (build_ldap_groups_groups (hpc_users state) (hpc_groups state) next_gid [])
       (\<lambda>(groups, next_gid, result).
     bind_result (build_ldap_groups_projects (hpc_users state) groups (hpc_projects state)
                    next_gid result)
       (\<lambda>(projects, next_gid, result).
          Inr (state\<lparr>hpc_groups := groups, hpc_projects := projects\<rparr>, next_gid, result)))"

text \<open>\<open>TargetStateBuilder._build_ldap_users\<close>\<close>

definition build_ldap_users :: "HpcaccessState \<Rightarrow> error + (string, LdapUser) dict" where
  "build_ldap_users hpcaccess_state =
     for_loop (\<lambda>user result.
       let gecos = \<lparr>Gecos.full_name = Some (HpcUser.full_name user),
                     office_location = None,
                     office_phone = phone_number user,
                     home_phone = None,
                     other = None\<rparr>
       in
       bind_result (case primary_group user of
                      Some pg \<Rightarrow>
                        bind_result (dict_item (hpc_groups hpcaccess_state) pg) (\<lambda>hpc_group.
                          Inr (if truthy_int (HpcGroup.gid hpc_group)
                               then the (HpcGroup.gid hpc_group) else HPC_ALUMNIS_GID))
                    | None \<Rightarrow> Inr HPC_ALUMNIS_GID) (\<lambda>group_gid.
         Inr (dict_set result (username user)
                \<lparr>LdapUser.cn = HpcUser.full_name user,
                 dn = user_dn user,
                 uid = username user,
                 mail = email user,
                 sn = last_name user,
                 given_name = first_name user,
                 uid_number = HpcUser.uid user,
                 gid_number = Some group_gid,
                 home_directory = BASE_PATH_TIER1 @ ''/home/users/'' @ username user,
                 login_shell = ''/usr/bin/bash'',
                 gecos = Some gecos,
                 ssh_public_key = []\<rparr>)))
       (dict_values (hpc_users hpcaccess_state)) []"

text \<open>
  \<open>(x.resources_requested or ResourceData).field\<close>: when the record has no requested
  resources, the attribute is read from the class \<open>ResourceData\<close> itself, which has no
  such attribute (the model class keeps its fields out of the class namespace).
\<close>

definition requested :: "ResourceData option \<Rightarrow> (ResourceData \<Rightarrow> real) \<Rightarrow> string \<Rightarrow> error + real" where
  "requested r field field_name =
     (case r of None \<Rightarrow> Inl (AttributeError field_name) | Some rd \<Rightarrow> Inr (field rd))"

text \<open>
  \<open>TargetStateBuilder._build_fs_directories\<close>: the body of the loop over the users,
  of the loop over the groups and of the loop over the projects. The loop over the
  projects reads the variable \<open>group\<close>, which the loop over the groups has left bound
  to its last element, or unbound when there is no group.
\<close>

definition fs_directories_user :: "HpcaccessState \<Rightarrow> HpcUser \<Rightarrow> (string, FsDirectory) dict
    \<Rightarrow> error + (string, FsDirectory) dict" where
  "fs_directories_user = (\<lambda>hpcaccess_state user result.
     bind_result (case primary_group user of
                    Some pg \<Rightarrow>
                      bind_result (dict_item (hpc_groups hpcaccess_state) pg) (\<lambda>hpc_group.
                        Inr (HpcGroup.name hpc_group,
                             if truthy_int (HpcGroup.gid hpc_group)
                             then the (HpcGroup.gid hpc_group) else HPC_ALUMNIS_GID))
                  | None \<Rightarrow> Inr (HPC_ALUMNIS_GROUP, HPC_ALUMNIS_GID)) (\<lambda>(group_name, group_gid).
       Inr (dict_set result (BASE_PATH_TIER1 @ ''/home/users/'' @ username user)
              \<lparr>path = BASE_PATH_TIER1 @ ''/home/users/'' @ username user,
               owner_name = username user,
               owner_uid = HpcUser.uid user,
               group_name = group_name,
               group_gid = group_gid,
               perms = ''drwx--S---'',
               rbytes = None,
               rfiles = None,
               quota_bytes = Some QUOTA_HOME_BYTES,
               quota_files = None\<rparr>)))"

text \<open>
  The directory both tier loops store: \<open>base\<close> is the tier's base path, \<open>volume\<close> the
  subdirectory kind, \<open>folder\<close> the rest of the path (\<open>groups/ag-<name>\<close> or
  \<open>projects/<name>\<close>).
\<close>

definition tier_directory ::
  "string \<Rightarrow> string \<Rightarrow> string \<Rightarrow> HpcUser \<Rightarrow> string \<Rightarrow> int \<Rightarrow> real \<Rightarrow> FsDirectory" where
  "tier_directory = (\<lambda>base volume folder owner group_name gid quota.
     \<lparr>path = base @ ''/'' @ volume @ ''/'' @ folder,
      owner_name = username owner,
      owner_uid = HpcUser.uid owner,
      group_name = group_name,
      group_gid = gid,
      perms = ''drwxrwS---'',
      rbytes = None,
      rfiles = None,
      quota_bytes = Some (py_int quota),
      quota_files = None\<rparr>)"

definition store_directory :: "(string, FsDirectory) dict \<Rightarrow> FsDirectory \<Rightarrow> (string, FsDirectory) dict" where
  "store_directory result d = dict_set result (path d) d"

definition fs_directories_group :: "HpcaccessState \<Rightarrow> HpcGroup \<Rightarrow> (string, FsDirectory) dict
    \<Rightarrow> error + (string, FsDirectory) dict" where
  "fs_directories_group = (\<lambda>hpcaccess_state group result.
     (if \<not> truthy_int (HpcGroup.gid group) then Inr result
      else
      bind_result (dict_item (hpc_users hpcaccess_state) (owner group)) (\<lambda>owner.
        let group_name = strip_prefix (HpcGroup.name group) (Some POSIX_AG_PREFIX) in
        bind_result (requested (HpcGroup.resources_requested group) ResourceData.tier1_work ''tier1_work'')
          (\<lambda>quota_work.
        if \<not> truthy_float quota_work then Inr result else
        bind_result (requested (HpcGroup.resources_requested group) ResourceData.tier1_scratch ''tier1_scratch'')
          (\<lambda>quota_scratch.
        if \<not> truthy_float quota_scratch then Inr result else
        let result1 =
              foldl (\<lambda>result (volume, quota).
                       store_directory result
                         (tier_directory BASE_PATH_TIER1 volume (''groups/ag-'' @ group_name) owner
                            group_name (the (HpcGroup.gid group)) quota))
                result
                [(''home'', real_of_int QUOTA_HOME_BYTES),
                 (''scratch'', quota_scratch * 1024 * 1024 * 1024 * 1024),
                 (''work'', quota_work * 1024 * 1024 * 1024 * 1024)]
        in
        for_loop (\<lambda>variant result.
            bind_result
              (if variant = ''mirrored''
               then requested (HpcGroup.resources_requested group) ResourceData.tier2_mirrored ''tier2_mirrored''
               else if variant = ''unmirrored''
               then requested (HpcGroup.resources_requested group) ResourceData.tier2_unmirrored ''tier2_unmirrored''
               else Inl (ValueError ''Invalid variant'')) (\<lambda>quota.
            if \<not> truthy_float quota then Inr result
            else Inr (store_directory result
                        (tier_directory BASE_PATH_TIER2 variant (''groups/ag-'' @ group_name) owner
                           group_name (the (HpcGroup.gid group)) quota))))
          [''unmirrored'', ''mirrored''] result1)))))"

definition fs_directories_project ::
  "HpcaccessState \<Rightarrow> HpcGroup option \<Rightarrow> HpcProject \<Rightarrow> (string, FsDirectory) dict
    \<Rightarrow> error + (string, FsDirectory) dict" where
  "fs_directories_project = (\<lambda>hpcaccess_state group project result.
     (if \<not> truthy_int (HpcProject.gid project) then Inr result
      else case HpcProject.group project of None \<Rightarrow> Inr result | Some project_group \<Rightarrow>
      bind_result (dict_item (hpc_groups hpcaccess_state) project_group) (\<lambda>owning_group.
      bind_result (dict_item (hpc_users hpcaccess_state) (owner owning_group)) (\<lambda>owner.
      bind_result (case group of
                     None \<Rightarrow> Inl (NameError ''group'')
                   | Some g \<Rightarrow> Inr (strip_prefix (HpcGroup.name g) (Some POSIX_PROJECT_PREFIX)))
        (\<lambda>project_name.
        bind_result (requested (HpcProject.resources_requested project) ResourceData.tier1_work ''tier1_work'')
          (\<lambda>quota_work.
        if \<not> truthy_float quota_work then Inr result else
        bind_result (requested (HpcProject.resources_requested project) ResourceData.tier1_scratch ''tier1_scratch'')
          (\<lambda>quota_scratch.
        if \<not> truthy_float quota_scratch then Inr result else
        let result1 =
              foldl (\<lambda>result (volume, quota).
                       store_directory result
                         (tier_directory BASE_PATH_TIER1 volume (''projects/'' @ project_name) owner
                            project_name (the (HpcProject.gid project)) quota))
                result
                [(''home'', real_of_int QUOTA_HOME_BYTES),
                 (''scratch'', quota_scratch * 1024 * 1024 * 1024 * 1024),
                 (''work'', quota_work * 1024 * 1024 * 1024 * 1024)]
        in
        for_loop (\<lambda>variant result.
            bind_result
              (if variant = ''mirrored''
               then requested (HpcProject.resources_requested project) ResourceData.tier2_mirrored ''tier2_mirrored''
               else if variant = ''unmirrored''
               then requested (HpcProject.resources_requested project) ResourceData.tier2_unmirrored ''tier2_unmirrored''
               else Inl (ValueError ''Invalid variant'')) (\<lambda>quota.
            if \<not> truthy_float quota then Inr result
            else Inr (store_directory result
                        (tier_directory BASE_PATH_TIER2 variant (''projects/'' @ project_name) owner
                           project_name (the (HpcProject.gid project)) quota))))
          [''unmirrored'', ''mirrored''] result1)))))))"

definition build_fs_directories :: "HpcaccessState \<Rightarrow> error + (string, FsDirectory) dict" where
  "build_fs_directories hpcaccess_state =
     bind_result (for_loop (fs_directories_user hpcaccess_state)
                    (dict_values (hpc_users hpcaccess_state)) []) (\<lambda>result.
     bind_result (for_loop (fs_directories_group hpcaccess_state)
                    (dict_values (hpc_groups hpcaccess_state)) result) (\<lambda>result.
     let group = (if dict_values (hpc_groups hpcaccess_state) = [] then None
                  else Some (last (dict_values (hpc_groups hpcaccess_state))))
     in for_loop (fs_directories_project hpcaccess_state group)
          (dict_values (hpc_projects hpcaccess_state)) result))"

text \<open>
  \<open>TargetStateBuilder._build\<close>, with the counter \<open>self.next_gid\<close> as an argument; the
  constructor seeds it with \<open>get_next_gid\<close> of the current state.
\<close>

definition build :: "int \<Rightarrow> HpcaccessState \<Rightarrow> error + SystemState" where
  "build next_gid hpcaccess_state0 =
     bind_result (build_ldap_groups hpcaccess_state0 next_gid) (\<lambda>(hpcaccess_state, _, ldap_groups0).
     bind_result (build_ldap_users hpcaccess_state) (\<lambda>ldap_users.
       let ldap_groups = dict_set ldap_groups0 ''hpc-users''
             \<lparr>LdapGroup.cn = ''hpc-users'',
              dn = ''cn=hpc-users,ou=Groups,dc=hpc,dc=bihealth,dc=org'',
              gid_number = HPC_USERS_GID,
              description = Some ''users allowed to login (active+have group)'',
              owner_dn = None,
              delegate_dns = [],
              member_uids =
                map LdapUser.uid
                  [u \<leftarrow> dict_values ldap_users.
                     LdapUser.gid_number u \<noteq> Some HPC_ALUMNIS_GID
                     \<and> \<not> str_contains ''nologin'' (LdapUser.login_shell u)]\<rparr>
       in
       bind_result (build_fs_directories hpcaccess_state) (\<lambda>fs_directories.
         Inr \<lparr>ldap_users = ldap_users, ldap_groups = ldap_groups,
              fs_directories = fs_directories\<rparr>)))"

definition TargetStateBuilder_run :: "SystemState \<Rightarrow> HpcaccessState \<Rightarrow> error + SystemState" where
  "TargetStateBuilder_run system_state hpcaccess_state =
     build (get_next_gid system_state) hpcaccess_state"

section \<open>states.py: validating a directory path\<close>

text \<open>
  \<open>re.search(RE_PATH, fs.path)\<close> with
  \<^verbatim>\<open>RE_PATH = /(?P<tier>cephfs-[12])/(?P<subdir>[^/]+)/(?P<entity>[^/]+)/(?P<name>[^/]+)\<close>.
  A group \<open>[^/]+\<close> that a slash must follow can only match a whole run of characters up
  to the next slash, and the last group, being greedy, takes the whole run too; so a
  match that starts at a given position is unique. \<open>re.search\<close> returns the match at
  the leftmost position that has one.
\<close>

definition segment :: "string \<Rightarrow> (string \<times> string) option" where
  "segment s =
     (let seg = takeWhile (\<lambda>c. c \<noteq> CHR ''/'') s
      in if seg = [] then None else Some (seg, dropWhile (\<lambda>c. c \<noteq> CHR ''/'') s))"

definition slash_then :: "string \<Rightarrow> string option" where
  "slash_then s = (if s \<noteq> [] \<and> hd s = CHR ''/'' then Some (tl s) else None)"

definition match_RE_PATH :: "string \<Rightarrow> (string \<times> string \<times> string \<times> string) option" where
  "match_RE_PATH s =
     (if startswith s ''/cephfs-1/'' \<or> startswith s ''/cephfs-2/'' then
        (case segment (drop 10 s) of None \<Rightarrow> None | Some (subdir, r1) \<Rightarrow>
        (case slash_then r1 of None \<Rightarrow> None | Some r1' \<Rightarrow>
        (case segment r1' of None \<Rightarrow> None | Some (entity, r2) \<Rightarrow>
        (case slash_then r2 of None \<Rightarrow> None | Some r2' \<Rightarrow>
        (case segment r2' of None \<Rightarrow> None | Some (folder, _) \<Rightarrow>
           Some (take 8 (drop 1 s), subdir, entity, folder))))))
      else None)"

fun search_RE_PATH :: "string \<Rightarrow> (string \<times> string \<times> string \<times> string) option" where
  "search_RE_PATH [] = match_RE_PATH []"
| "search_RE_PATH (c # cs) =
     (case match_RE_PATH (c # cs) of Some m \<Rightarrow> Some m | None \<Rightarrow> search_RE_PATH cs)"

text \<open>\<open>fs_validation\<close>; the texts of its error messages are shortened.\<close>

definition fs_validation :: "FsDirectory \<Rightarrow> error + (string \<times> string \<times> string)" where
  "fs_validation fs =
     (case search_RE_PATH (path fs) of
        None \<Rightarrow> Inl (ValueError (''no match for path '' @ path fs))
      | Some (tier, subdir, entity, folder_name) \<Rightarrow>
          if entity \<notin> set ENTITIES then Inl (ValueError (''entity unknown: '' @ entity))
          else
          bind_result (if entity = ''users'' then Inr (owner_name fs)
                       else bind_result (dict_item PREFIX_MAPPING entity) (\<lambda>prefix.
                              Inr (strip_prefix (group_name fs) (Some prefix)))) (\<lambda>entity_name.
          if \<not> entity_name = folder_name
          then Inl (ValueError (''name mismatch: '' @ entity_name @ '' '' @ path fs))
          else (case dict_get CEPHFS_TIER_MAPPING (tier, subdir, entity) of
                  None \<Rightarrow> Inl (ValueError (''path '' @ path fs @ '' not in mapping''))
                | Some resource \<Rightarrow>
                    if resource = [] then Inl (ValueError (''path '' @ path fs @ '' not in mapping''))
                    else Inr (entity, folder_name, resource))))"

section \<open>main.py: the usage-sync command\<close>

text \<open>
  \<open>sync_storage_usage\<close>, from the two gathered states on. The first loop resets
  \<open>resources_used\<close> of every registry record to an empty dictionary and indexes the
  records by name; \<open>hpcaccess[entity][name]\<close> is later read for its \<open>uuid\<close> only, so
  the index holds that. The second loop folds each directory into the record it
  belongs to. A \<open>ValueError\<close> of the validation is caught (the directory is skipped);
  any other exception ends the command. The quotient \<open>fs_data.rbytes / 1024 ** p\<close> divides
  by the power of two \<open>2 ^ (10 * p)\<close>.
\<close>

definition reset_usage :: "HpcaccessState \<Rightarrow> HpcaccessState" where
  "reset_usage dst_state =
     dst_state\<lparr>hpc_users := map (\<lambda>(k, d). (k, d\<lparr>HpcUser.resources_used := Some (Plain [])\<rparr>))
                             (hpc_users dst_state),
               hpc_groups := map (\<lambda>(k, d). (k, d\<lparr>HpcGroup.resources_used := Some (Plain [])\<rparr>))
                              (hpc_groups dst_state),
               hpc_projects := map (\<lambda>(k, d). (k, d\<lparr>HpcProject.resources_used := Some (Plain [])\<rparr>))
                                (hpc_projects dst_state)\<rparr>"

definition usage_index :: "HpcaccessState \<Rightarrow> (string, (string, UUID) dict) dict" where
  "usage_index dst_state =
     [(''users'', foldl (\<lambda>m d. dict_set m (username d) (HpcUser.uuid d)) []
                    (dict_values (hpc_users dst_state))),
      (''groups'', foldl (\<lambda>m d. dict_set m (HpcGroup.name d) (HpcGroup.uuid d)) []
                     (dict_values (hpc_groups dst_state))),
      (''projects'', foldl (\<lambda>m d. dict_set m (HpcProject.name d) (HpcProject.uuid d)) []
                       (dict_values (hpc_projects dst_state)))]"

text \<open>\<open>records[uuid].resources_used[resource] = value\<close>\<close>

definition set_used :: "'m resources option \<Rightarrow> string \<Rightarrow> real \<Rightarrow> error + 'm resources option" where
  "set_used used resource v =
     (case used of
        Some (Plain m) \<Rightarrow> Inr (Some (Plain (dict_set m resource v)))
      | _ \<Rightarrow> Inl (TypeError ''resources_used''))"

definition fold_usage ::
  "(string, (string, UUID) dict) dict \<Rightarrow> FsDirectory \<Rightarrow> HpcaccessState \<Rightarrow> error + HpcaccessState"
where
  "fold_usage hpcaccess fs_data dst_state =
     (case fs_validation fs_data of
        Inl (ValueError _) \<Rightarrow> Inr dst_state
      | Inl e \<Rightarrow> Inl e
      | Inr (entity, folder, resource) \<Rightarrow>
          (case dict_get (case dict_get hpcaccess entity of None \<Rightarrow> [] | Some m \<Rightarrow> m) folder of
             None \<Rightarrow> Inr dst_state
           | Some record_uuid \<Rightarrow>
               (case rbytes fs_data of
                  None \<Rightarrow> Inl (TypeError ''rbytes'')
                | Some n \<Rightarrow>
                    let p = 4 - (if entity = ENTITY_USERS then 1 else 0 :: nat) in
                    bind_result (int_truediv_pow2 n (10 * p)) (\<lambda>v.
                    if entity = ''users'' then
                      bind_result (dict_item (hpc_users dst_state) record_uuid) (\<lambda>d.
                      bind_result (set_used (HpcUser.resources_used d) resource v) (\<lambda>used.
                        Inr (dst_state\<lparr>hpc_users := dict_set (hpc_users dst_state) record_uuid
                                          (d\<lparr>HpcUser.resources_used := used\<rparr>)\<rparr>)))
                    else if entity = ''groups'' then
                      bind_result (dict_item (hpc_groups dst_state) record_uuid) (\<lambda>d.
                      bind_result (set_used (HpcGroup.resources_used d) resource v) (\<lambda>used.
                        Inr (dst_state\<lparr>hpc_groups := dict_set (hpc_groups dst_state) record_uuid
                                          (d\<lparr>HpcGroup.resources_used := used\<rparr>)\<rparr>)))
                    else
                      bind_result (dict_item (hpc_projects dst_state) record_uuid) (\<lambda>d.
                      bind_result (set_used (HpcProject.resources_used d) resource v) (\<lambda>used.
                        Inr (dst_state\<lparr>hpc_projects := dict_set (hpc_projects dst_state) record_uuid
                                          (d\<lparr>HpcProject.resources_used := used\<rparr>)\<rparr>)))))))"

text \<open>
  The command returns the registry state it has updated and, unless this is a dry run,
  the state it hands to \<open>deploy_hpcaccess_state\<close>, which pushes it to the registry.
\<close>

definition sync_storage_usage ::
  "bool \<Rightarrow> SystemState \<Rightarrow> HpcaccessState \<Rightarrow> error + (HpcaccessState \<times> HpcaccessState option)"
where
  "sync_storage_usage dry_run src_state dst_state0 =
     (let dst_state = reset_usage dst_state0;
          hpcaccess = usage_index dst_state
      in bind_result (for_loop (fold_usage hpcaccess) (dict_values (fs_directories src_state)) dst_state)
           (\<lambda>dst_state. Inr (dst_state, if \<not> dry_run then Some dst_state else None)))"

section \<open>fs.py: applying directory operations\<close>

text \<open>
  \<open>check_call\<close> runs a command and raises when it exits with a non-zero status. The
  commands run are the effect of this module: \<open>calls\<close> lists them in order, and
  \<open>succeeds\<close> says which commands the system lets succeed.
\<close>

record Subprocess =
  succeeds :: "string list \<Rightarrow> bool"
  calls :: "string list list"

definition check_call :: "Subprocess \<Rightarrow> string list \<Rightarrow> error + Subprocess" where
  "check_call sp args =
     (if succeeds sp args then Inr (sp\<lparr>calls := calls sp @ [args]\<rparr>)
      else Inl (Exception ''CalledProcessError''))"

text \<open>\<open>s.replace(c, r)\<close> for a pattern \<open>c\<close> of one character.\<close>

definition str_replace :: "char \<Rightarrow> string \<Rightarrow> string \<Rightarrow> string" where
  "str_replace c r s = concat (map (\<lambda>x. if x = c then r else [x]) s)"

definition transform_perms :: "string \<Rightarrow> string" where
  "transform_perms = (\<lambda>perms.
     let perms_user0 = str_replace CHR ''-'' [] (take 3 (drop 1 perms));
         perms_user =
           (if CHR ''S'' \<in> set perms_user0
            then ''u='' @ str_replace CHR ''S'' [] perms_user0 @ '',u+s''
            else if CHR ''S'' \<in> set perms_user0
            then ''u='' @ str_replace CHR ''s'' ''x'' perms_user0 @ '',u+s''
            else ''u='' @ perms_user0 @ '',u-s'');
         perms_group0 = str_replace CHR ''-'' [] (take 3 (drop 4 perms));
         perms_group =
           (if CHR ''S'' \<in> set perms_group0
            then ''g='' @ str_replace CHR ''S'' [] perms_group0 @ '',g+s''
            else if CHR ''s'' \<in> set perms_group0
            then ''g='' @ str_replace CHR ''s'' ''x'' perms_group0 @ '',g+s''
            else perms_group0);
         perms_other0 =
           str_replace CHR ''s'' ''x'' (str_replace CHR ''S'' [] (str_replace CHR ''-'' [] (drop 7 perms)));
         perms_other = ''o='' @ perms_other0 @ '',o-s''
     in perms_user @ '','' @ perms_group @ '','' @ perms_other)"

text \<open>\<open>f"{value}"\<close> for a value of a directory diff.\<close>

definition format_value :: "fs_value option \<Rightarrow> string" where
  "format_value v = (case v of None \<Rightarrow> ''None'' | Some (FInt n) \<Rightarrow> str_of_int n | Some (FStr x) \<Rightarrow> x)"

definition fs_op_create :: "FsDirectory \<Rightarrow> bool \<Rightarrow> Subprocess \<Rightarrow> error + Subprocess" where
  "fs_op_create = (\<lambda>directory dry_run sp.
     let perms = transform_perms (perms directory) in
     if \<not> dry_run then
       bind_result (check_call sp [''mkdir'', ''-v'', ''-m'', perms, ''-p'', path directory]) (\<lambda>sp.
         check_call sp [''chown'', ''-c'', owner_name directory @ '':'' @ group_name directory,
                        path directory])
     else Inr sp)"

definition fs_op_disable :: "FsDirectory \<Rightarrow> bool \<Rightarrow> Subprocess \<Rightarrow> error + Subprocess" where
  "fs_op_disable = (\<lambda>directory dry_run sp.
     if \<not> dry_run
     then check_call sp [''setfattr'', ''-n'', ''ceph-quota.max_files'', ''-v'', ''0'', path directory]
     else Inr sp)"

definition fs_op_update ::
  "FsDirectory \<Rightarrow> (string, fs_value option) dict \<Rightarrow> bool \<Rightarrow> Subprocess \<Rightarrow> error + Subprocess" where
  "fs_op_update = (\<lambda>directory diff dry_run sp0.
     for_loop (\<lambda>(key, v) sp.
       if key = ''quota_bytes'' then
         (if v = None then
            (if \<not> dry_run then check_call sp [''setfattr'', ''-x'', ''ceph-quota.max_bytes'', path directory]
             else Inr sp)
          else
            (if \<not> dry_run
             then check_call sp [''setfattr'', ''-n'', ''ceph-quota.max_bytes'', ''-v'', format_value v,
                                 path directory]
             else Inr sp))
       else if key = ''quota_files'' then
         (if v = None then
            (if \<not> dry_run then check_call sp [''setfattr'', ''-x'', ''ceph-quota.max_files'', path directory]
             else Inr sp)
          else
            (if \<not> dry_run
             then check_call sp [''setfattr'', ''-n'', ''ceph-quota.max_files'', ''-v'', format_value v,
                                 path directory]
             else Inr sp))
       else if key \<in> set [''owner_name'', ''owner_uid''] then
         (if \<not> dry_run then check_call sp [''chown'', ''-c'', format_value v, path directory] else Inr sp)
       else if key \<in> set [''group_name'', ''group_gid''] then
         (if \<not> dry_run then check_call sp [''chgrp'', ''-c'', format_value v, path directory] else Inr sp)
       else if key = ''perms'' then
         (let perms = transform_perms (perms directory) in
          if \<not> dry_run then check_call sp [''chmod'', ''-c'', perms, path directory] else Inr sp)
       else Inl (ValueError (''I don't know how to handle fs directory diff key '' @ key)))
     diff sp0)"

definition apply_fs_op :: "FsDirectoryOp \<Rightarrow> bool \<Rightarrow> Subprocess \<Rightarrow> error + Subprocess" where
  "apply_fs_op fs_op dry sp =
     (if FsDirectoryOp.operation fs_op = CREATE then fs_op_create (directory fs_op) dry sp
      else if FsDirectoryOp.operation fs_op = DISABLE then fs_op_disable (directory fs_op) dry sp
      else if FsDirectoryOp.operation fs_op = UPDATE
      then fs_op_update (directory fs_op) (FsDirectoryOp.diff fs_op) dry sp
      else Inr sp)"

section \<open>ldap.py: applying account and group operations\<close>

text \<open>
  The directory server is outside the program. The connection records the requests
  that change the server: an \<open>Add\<close> of an entry, or a \<open>Commit\<close> of the attribute
  values written to the first entry that a search filter finds. What the server answers
  is part of the connection as well: \<open>search_finds\<close> says for which filters the paged
  search returns an entry, \<open>commit_succeeds\<close> whether a commit is accepted.
\<close>

datatype ldap_request =
    Add string "string list" "(string, ldap_value) dict"
  | Commit string "(string, ldap_value option) dict"

record LdapConnection =
  search_finds :: "string \<Rightarrow> bool"
  commit_succeeds :: bool
  requests :: "ldap_request list"

definition USER_OBJ_CLASSES :: "string list" where
  "USER_OBJ_CLASSES = [''inetOrgPerson'', ''posixAccount'', ''ldapPublicKey'', ''bih-expireDates'', ''top'']"

definition entry_commit_changes ::
  "LdapConnection \<Rightarrow> string \<Rightarrow> (string, ldap_value option) dict \<Rightarrow> string \<Rightarrow> error + LdapConnection" where
  "entry_commit_changes conn search_filter writable msg =
     (if \<not> commit_succeeds conn then Inl (Exception msg)
      else Inr (conn\<lparr>requests := requests conn @ [Commit search_filter writable]\<rparr>))"

definition user_op_create :: "LdapUser \<Rightarrow> bool \<Rightarrow> LdapConnection \<Rightarrow> error + LdapConnection" where
  "user_op_create = (\<lambda>user dry_run conn.
     let user_data0 = [(''cn'', VStr (LdapUser.cn user)),
                       (''uid'', VStr (LdapUser.uid user)),
                       (''uidNumber'', VInt (uid_number user)),
                       (''homeDirectory'', VStr (LdapUser.home_directory user))];
         user_data1 = (if truthy_str (sn user)
                       then dict_set user_data0 ''sn'' (VStr (the (sn user))) else user_data0);
         user_data = (if truthy_str (given_name user)
                      then dict_set user_data1 ''givenName'' (VStr (the (given_name user)))
                      else user_data1)
     in if \<not> dry_run
        then Inr (conn\<lparr>requests := requests conn @ [Add (LdapUser.dn user) USER_OBJ_CLASSES user_data]\<rparr>)
        else Inr conn)"

definition user_op_disable :: "LdapUser \<Rightarrow> bool \<Rightarrow> LdapConnection \<Rightarrow> error + LdapConnection" where
  "user_op_disable = (\<lambda>user dry_run conn.
     let search_filter = ''(&(objectClass=posixAccount)(uid='' @ LdapUser.uid user @ ''))'' in
     if \<not> search_finds conn search_filter
     then Inl (Exception ''FATAL: could not find users with search base'')
     else
       let writable = [(''loginShell'', Some (VStr LOGIN_SHELL_DISABLED))] in
       if \<not> dry_run
       then entry_commit_changes conn search_filter writable
              (''Failed to disable user '' @ LdapUser.uid user @ ''.'')
       else Inr conn)"

text \<open>\<open>value or ""\<close>\<close>

definition value_or_empty :: "ldap_value option \<Rightarrow> ldap_value" where
  "value_or_empty v =
     (case v of
        None \<Rightarrow> VStr []
      | Some (VInt n) \<Rightarrow> if n = 0 then VStr [] else VInt n
      | Some (VStr x) \<Rightarrow> VStr x
      | Some (VList xs) \<Rightarrow> if xs = [] then VStr [] else VList xs
      | Some (VDict m) \<Rightarrow> if m = [] then VStr [] else VDict m)"

text \<open>
  \<open>_user_op_update\<close>; \<open>camelize\<close> is the function of that name of the library
  \<open>humps\<close>. The dictionary \<open>applied_diff\<close> of the source is only logged.
\<close>

definition user_op_update ::
  "(string \<Rightarrow> string) \<Rightarrow> LdapUser \<Rightarrow> (string, ldap_value option) dict \<Rightarrow> bool \<Rightarrow> LdapConnection
   \<Rightarrow> error + LdapConnection" where
  "user_op_update = (\<lambda>camelize user diff dry_run conn.
     let search_filter = ''(&(objectClass=posixAccount)(uid='' @ LdapUser.uid user @ ''))'' in
     if \<not> search_finds conn search_filter
     then Inl (Exception ''FATAL: could not find users with search base'')
     else
       let writable = foldl (\<lambda>w (key, v). dict_set w (camelize key) (Some (value_or_empty v))) [] diff in
       if \<not> dry_run
       then entry_commit_changes conn search_filter writable
              (''Failed to disable user '' @ LdapUser.uid user @ ''.'')
       else Inr conn)"

definition apply_user_op ::
  "(string \<Rightarrow> string) \<Rightarrow> LdapConnection \<Rightarrow> LdapUserOp \<Rightarrow> bool \<Rightarrow> error + LdapConnection" where
  "apply_user_op camelize conn op dry =
     (if LdapUserOp.operation op = CREATE then user_op_create (user op) dry conn
      else if LdapUserOp.operation op = DISABLE then user_op_disable (user op) dry conn
      else if LdapUserOp.operation op = UPDATE
      then user_op_update camelize (user op) (LdapUserOp.diff op) dry conn
      else Inr conn)"

text \<open>
  \<open>apply_group_op\<close> compares the operation object itself, not its field \<open>operation\<close>,
  with the members of \<open>StateOperation\<close>. Python's \<open>==\<close> between objects of the two
  classes is modelled on a type that holds either: two objects are equal when they are
  of the same class and equal there.
\<close>

datatype py_object = LdapGroupOp_object LdapGroupOp | StateOperation_object StateOperation

definition py_eq :: "py_object \<Rightarrow> py_object \<Rightarrow> bool" where
  "py_eq a b = (a = b)"

definition group_op_create :: "LdapGroup \<Rightarrow> bool \<Rightarrow> LdapConnection \<Rightarrow> error + LdapConnection" where
  "group_op_create = (\<lambda>group dry_run conn. Inr conn)"

definition group_op_disable :: "LdapGroup \<Rightarrow> bool \<Rightarrow> LdapConnection \<Rightarrow> error + LdapConnection" where
  "group_op_disable = (\<lambda>group dry_run conn. Inr conn)"

definition group_op_update ::
  "LdapGroup \<Rightarrow> (string, ldap_value option) dict \<Rightarrow> bool \<Rightarrow> LdapConnection
   \<Rightarrow> error + LdapConnection" where
  "group_op_update = (\<lambda>group diff dry_run conn.
     let search_filter = ''(&(objectClass=gidNumber)(gidNumber=''
                           @ str_of_int (LdapGroup.gid_number group) @ ''))'' in
     if \<not> search_finds conn search_filter
     then Inl (Exception ''FATAL: could not find group with search base'')
     else
       let writable = foldl (\<lambda>w (key, v). dict_set w key v) [] diff in
       if \<not> dry_run
       then entry_commit_changes conn search_filter writable
              (''Failed to update DN: '' @ LdapGroup.dn group @ ''.'')
       else Inr conn)"

definition apply_group_op :: "LdapConnection \<Rightarrow> LdapGroupOp \<Rightarrow> bool \<Rightarrow> error + LdapConnection" where
  "apply_group_op conn op dry =
     (if py_eq (LdapGroupOp_object op) (StateOperation_object CREATE)
      then group_op_create (group op) dry conn
      else if py_eq (LdapGroupOp_object op) (StateOperation_object DISABLE)
      then group_op_disable (group op) dry conn
      else if py_eq (LdapGroupOp_object op) (StateOperation_object UPDATE)
      then group_op_update (group op) (LdapGroupOp.diff op) dry conn
      else Inr conn)"

section \<open>config.py and main.py: the state-sync command\<close>

record Settings =
  ldap_user_ops :: "StateOperation list"
  ldap_group_ops :: "StateOperation list"
  fs_ops :: "StateOperation list"
  dry_run :: bool

definition default_settings :: Settings where
  "default_settings =
     \<lparr>Settings.ldap_user_ops = [CREATE, UPDATE, DISABLE],
      ldap_group_ops = [CREATE, UPDATE, DISABLE],
      fs_ops = [CREATE, UPDATE, DISABLE],
      dry_run = False\<rparr>"

text \<open>
  \<open>sync_data\<close>, from the loaded settings, the command-line options and the two gathered
  states on. \<open>list(StateOperation)\<close> is \<open>[CREATE, UPDATE, DISABLE]\<close>. The result is
  the updated settings, the connection with the requests sent and the commands run.
\<close>

definition sync_data ::
  "(string \<Rightarrow> string) \<Rightarrow> Settings \<Rightarrow> StateOperation list \<Rightarrow> StateOperation list
   \<Rightarrow> StateOperation list \<Rightarrow> bool \<Rightarrow> SystemState \<Rightarrow> HpcaccessState \<Rightarrow> LdapConnection
   \<Rightarrow> Subprocess \<Rightarrow> error + (Settings \<times> LdapConnection \<times> Subprocess)" where
  "sync_data = (\<lambda>camelize loaded ldap_user_ops ldap_group_ops fs_ops dry_run src_state
                  hpcaccess_state connection0 sp0.
     let settings = loaded
           \<lparr>Settings.ldap_user_ops :=
              (if ldap_user_ops \<noteq> [] then ldap_user_ops else [CREATE, UPDATE, DISABLE]),
            Settings.ldap_group_ops :=
              (if ldap_group_ops \<noteq> [] then ldap_group_ops else [CREATE, UPDATE, DISABLE]),
            Settings.fs_ops := (if fs_ops \<noteq> [] then fs_ops else [CREATE, UPDATE, DISABLE]),
            Settings.dry_run := dry_run\<rparr>
     in
     bind_result (TargetStateBuilder_run src_state hpcaccess_state) (\<lambda>dst_state.
     bind_result (TargetStateComparison_run src_state dst_state) (\<lambda>operations.
     bind_result (for_loop (\<lambda>group_op connection. apply_group_op connection group_op dry_run)
                    (OperationsContainer.ldap_group_ops operations) connection0) (\<lambda>connection.
     bind_result (for_loop (\<lambda>user_op connection. apply_user_op camelize connection user_op dry_run)
                    (OperationsContainer.ldap_user_ops operations) connection) (\<lambda>connection.
     bind_result (for_loop (\<lambda>fs_op sp. apply_fs_op fs_op dry_run sp)
                    (OperationsContainer.fs_ops operations) sp0) (\<lambda>sp.
       Inr (settings, connection, sp)))))))"

section \<open>Example states\<close>

definition alice :: LdapUser where
  "alice =
     \<lparr>LdapUser.cn = ''Alice Doe'',
      dn = ''cn=Alice Doe,ou=Charite,ou=Users,dc=hpc,dc=bihealth,dc=org'',
      uid = ''alice'', mail = None, sn = Some ''Doe'', given_name = Some ''Alice'',
      uid_number = 2001, gid_number = Some 1000,
      home_directory = ''/data/cephfs-1/home/users/alice'',
      login_shell = ''/usr/bin/bash'', gecos = None, ssh_public_key = []\<rparr>"

definition state_empty :: SystemState where
  "state_empty = \<lparr>ldap_users = [], ldap_groups = [], fs_directories = []\<rparr>"

definition home_bob :: FsDirectory where
  "home_bob =
     \<lparr>path = ''/data/cephfs-1/home/users/bob'', owner_name = ''bob'', owner_uid = 2002,
      group_name = ''hpc-ag-foo'', group_gid = 1000, perms = ''drwx--S---'', rbytes = Some 10,
      rfiles = Some 1, quota_bytes = Some 1073741824, quota_files = None\<rparr>"

definition state_bob :: SystemState where
  "state_bob = state_empty\<lparr>fs_directories := [(''/data/cephfs-1/home/users/bob'', home_bob)]\<rparr>"

definition registry_empty :: HpcaccessState where
  "registry_empty = \<lparr>hpc_users = [], hpc_groups = [], hpc_projects = []\<rparr>"

definition subprocess_ok :: Subprocess where
  "subprocess_ok = \<lparr>succeeds = (\<lambda>_. True), calls = []\<rparr>"

definition no_folders :: GroupFolders where
  "no_folders =
     \<lparr>GroupFolders.tier1_work = [], tier1_scratch = [], tier2_mirrored = [],
      tier2_unmirrored = []\<rparr>"

definition carol :: HpcUser where
  "carol =
     \<lparr>HpcUser.uuid = ''u-carol'', primary_group = Some ''g-alpha'', description = None,
      email = None, full_name = ''Carol Roe'', first_name = Some ''Carol'',
      last_name = Some ''Roe'', phone_number = None, resources_requested = None,
      resources_used = None, status = ACTIVE, uid = 2003, username = ''carol'', expiration = 0,
      home_directory = ''/data/cephfs-1/home/users/carol'', login_shell = ''/usr/bin/bash'',
      current_version = 1\<rparr>"

definition group_alpha :: HpcGroup where
  "group_alpha =
     \<lparr>HpcGroup.uuid = ''g-alpha'', owner = ''u-carol'', description = None, delegate = None,
      resources_requested =
        Some \<lparr>ResourceData.tier1_work = 2, tier1_scratch = 1, tier2_mirrored = 0,
              tier2_unmirrored = 0\<rparr>,
      resources_used = None, status = ACTIVE, gid = Some 5000, name = ''alpha'',
      folders = no_folders, expiration = 0, current_version = 1\<rparr>"

definition project_beta :: HpcProject where
  "project_beta =
     \<lparr>HpcProject.uuid = ''p-beta'', group = Some ''g-alpha'', description = None,
      delegate = None,
      resources_requested =
        Some \<lparr>ResourceData.tier1_work = 1, tier1_scratch = 1, tier2_mirrored = 0,
              tier2_unmirrored = 0\<rparr>,
      resources_used = None, status = ACTIVE, gid = Some 6000, name = ''beta'',
      folders = no_folders, expiration = 0, current_version = 1, members = []\<rparr>"

text \<open>A registry with one user, one group (\<open>alpha\<close>) and one project (\<open>beta\<close>).\<close>

definition registry_alpha :: HpcaccessState where
  "registry_alpha =
     \<lparr>hpc_users = [(''u-carol'', carol)], hpc_groups = [(''g-alpha'', group_alpha)],
      hpc_projects = [(''p-beta'', project_beta)]\<rparr>"

definition directories_alpha :: "(string, FsDirectory) dict" where
  "directories_alpha =
     [(''/data/cephfs-1/home/users/carol'',
       \<lparr>path = ''/data/cephfs-1/home/users/carol'', owner_name = ''carol'', owner_uid = 2003,
        group_name = ''alpha'', group_gid = 5000, perms = ''drwx--S---'', rbytes = None,
        rfiles = None, quota_bytes = Some 1073741824, quota_files = None\<rparr>),
      (''/data/cephfs-1/home/groups/ag-alpha'',
       tier_directory ''/data/cephfs-1'' ''home'' ''groups/ag-alpha'' carol ''alpha'' 5000 1073741824),
      (''/data/cephfs-1/scratch/groups/ag-alpha'',
       tier_directory ''/data/cephfs-1'' ''scratch'' ''groups/ag-alpha'' carol ''alpha'' 5000 1099511627776),
      (''/data/cephfs-1/work/groups/ag-alpha'',
       tier_directory ''/data/cephfs-1'' ''work'' ''groups/ag-alpha'' carol ''alpha'' 5000 2199023255552),
      (''/data/cephfs-1/home/projects/alpha'',
       tier_directory ''/data/cephfs-1'' ''home'' ''projects/alpha'' carol ''alpha'' 6000 1073741824),
      (''/data/cephfs-1/scratch/projects/alpha'',
       tier_directory ''/data/cephfs-1'' ''scratch'' ''projects/alpha'' carol ''alpha'' 6000 1099511627776),
      (''/data/cephfs-1/work/projects/alpha'',
       tier_directory ''/data/cephfs-1'' ''work'' ''projects/alpha'' carol ''alpha'' 6000 1099511627776)]"

text \<open>
  A current state whose groups have the ids 1000, 1005 and 1006, and a registry with two
  groups that have no id yet; the registry after the groups were built, and the groups.
\<close>

definition ldap_team :: "string \<Rightarrow> int \<Rightarrow> string option \<Rightarrow> LdapGroup" where
  "ldap_team nm n ow =
     \<lparr>LdapGroup.cn = ''hpc-ag-'' @ nm,
      dn = ''cn=hpc-ag-'' @ nm @ '',ou=Teams,ou=Groups,dc=hpc,dc=bihealth,dc=org'',
      gid_number = n, description = None, owner_dn = ow, delegate_dns = [], member_uids = []\<rparr>"

definition state_1006 :: SystemState where
  "state_1006 =
     \<lparr>ldap_users = [],
      ldap_groups = [(''hpc-ag-a'', ldap_team ''a'' 1000 None), (''hpc-ag-b'', ldap_team ''b'' 1005 None),
                     (''hpc-ag-c'', ldap_team ''c'' 1006 None)],
      fs_directories = []\<rparr>"

definition group_new :: "string \<Rightarrow> int option \<Rightarrow> HpcGroup" where
  "group_new nm n = group_alpha\<lparr>HpcGroup.uuid := ''g-'' @ nm, HpcGroup.gid := n, HpcGroup.name := nm\<rparr>"

definition registry_new :: HpcaccessState where
  "registry_new =
     \<lparr>hpc_users = [(''u-carol'', carol)],
      hpc_groups = [(''g-new1'', group_new ''new1'' None), (''g-new2'', group_new ''new2'' None)],
      hpc_projects = []\<rparr>"

definition registry_new_built :: HpcaccessState where
  "registry_new_built =
     \<lparr>hpc_users = [(''u-carol'', carol)],
      hpc_groups = [(''g-new1'', group_new ''new1'' (Some 1007)),
                    (''g-new2'', group_new ''new2'' (Some 1008))],
      hpc_projects = []\<rparr>"

definition carol_dn :: string where
  "carol_dn = ''cn=Carol Roe,ou=Charite,ou=Users,dc=hpc,dc=bihealth,dc=org''"

definition ldap_groups_new :: "(string, LdapGroup) dict" where
  "ldap_groups_new =
     [(''hpc-ag-new1'', ldap_team ''new1'' 1007 (Some carol_dn)),
      (''hpc-ag-new2'', ldap_team ''new2'' 1008 (Some carol_dn))]"

text \<open>The target state the builder derives from the registry \<open>registry_alpha\<close>.\<close>

definition desired_alpha :: SystemState where
  "desired_alpha =
     \<lparr>ldap_users =
        [(''carol'',
          \<lparr>LdapUser.cn = ''Carol Roe'', dn = carol_dn, uid = ''carol'', mail = None,
           sn = Some ''Roe'', given_name = Some ''Carol'', uid_number = 2003,
           gid_number = Some 5000, home_directory = ''/data/cephfs-1/home/users/carol'',
           login_shell = ''/usr/bin/bash'',
           gecos = Some \<lparr>Gecos.full_name = Some ''Carol Roe'', office_location = None,
                         office_phone = None, home_phone = None, other = None\<rparr>,
           ssh_public_key = []\<rparr>)],
      ldap_groups =
        [(''hpc-ag-alpha'', ldap_team ''alpha'' 5000 (Some carol_dn)),
         (''hpc-prj-beta'',
          \<lparr>LdapGroup.cn = ''hpc-prj-beta'',
           dn = ''cn=hpc-prj-beta,ou=Projects,ou=Groups,dc=hpc,dc=bihealth,dc=org'',
           gid_number = 6000, description = None, owner_dn = Some carol_dn,
           delegate_dns = [], member_uids = []\<rparr>),
         (''hpc-users'',
          \<lparr>LdapGroup.cn = ''hpc-users'',
           dn = ''cn=hpc-users,ou=Groups,dc=hpc,dc=bihealth,dc=org'',
           gid_number = 1005269,
           description = Some ''users allowed to login (active+have group)'',
           owner_dn = None, delegate_dns = [], member_uids = [''carol'']\<rparr>)],
      fs_directories = directories_alpha\<rparr>"

text \<open>A registry whose one group has the id 0.\<close>

definition registry_zero :: HpcaccessState where
  "registry_zero =
     \<lparr>hpc_users = [(''u-carol'', carol)],
      hpc_groups = [(''g-zero'', group_new ''zero'' (Some 0))],
      hpc_projects = []\<rparr>"

definition registry_zero_built :: HpcaccessState where
  "registry_zero_built =
     \<lparr>hpc_users = [(''u-carol'', carol)],
      hpc_groups = [(''g-zero'', group_new ''zero'' (Some 1000))],
      hpc_projects = []\<rparr>"

text \<open>
  A registry whose one group is named \<open>ag-foo\<close> and has used 3 TB of tier-1 work storage,
  and a current state whose one directory is the tier-1 scratch directory of that group,
  holding 5 TB.
\<close>

definition group_foo :: HpcGroup where
  "group_foo =
     \<lparr>HpcGroup.uuid = ''g-foo'', owner = ''u-carol'', description = None, delegate = None,
      resources_requested = None,
      resources_used =
        Some (Model \<lparr>ResourceData.tier1_work = 3, tier1_scratch = 0, tier2_mirrored = 0,
                     tier2_unmirrored = 0\<rparr>),
      status = ACTIVE, gid = Some 5001, name = ''ag-foo'',
      folders = no_folders, expiration = 0, current_version = 1\<rparr>"

definition registry_foo :: HpcaccessState where
  "registry_foo = \<lparr>hpc_users = [], hpc_groups = [(''g-foo'', group_foo)], hpc_projects = []\<rparr>"

definition scratch_foo :: FsDirectory where
  "scratch_foo =
     \<lparr>path = ''/data/cephfs-1/scratch/groups/ag-foo'', owner_name = ''carol'', owner_uid = 2003,
      group_name = ''ag-foo'', group_gid = 5001, perms = ''drwxrwS---'',
      rbytes = Some (5 * 1024 ^ 4), rfiles = Some 7, quota_bytes = None, quota_files = None\<rparr>"

definition state_foo :: SystemState where
  "state_foo =
     \<lparr>ldap_users = [], ldap_groups = [],
      fs_directories = [(''/data/cephfs-1/scratch/groups/ag-foo'', scratch_foo)]\<rparr>"

text \<open>
  A registry with two groups whose directories have the same name: the group \<open>alpha\<close>
  and a group named \<open>hpc-ag-alpha\<close>, which requests 3 TB of tier-1 work storage; and
  the directories the builder derives from it. A registry whose one group has no id yet.
\<close>

definition group_alpha3 :: HpcGroup where
  "group_alpha3 =
     group_alpha\<lparr>HpcGroup.uuid := ''g-alpha3'',
        HpcGroup.resources_requested :=
          Some \<lparr>ResourceData.tier1_work = 3, tier1_scratch = 1, tier2_mirrored = 0,
                tier2_unmirrored = 0\<rparr>,
        HpcGroup.gid := Some 5001, HpcGroup.name := ''hpc-ag-alpha''\<rparr>"

definition registry_clash :: HpcaccessState where
  "registry_clash =
     \<lparr>hpc_users = [(''u-carol'', carol)],
      hpc_groups = [(''g-alpha'', group_alpha), (''g-alpha3'', group_alpha3)],
      hpc_projects = []\<rparr>"

definition directories_clash :: "(string, FsDirectory) dict" where
  "directories_clash =
     [(''/data/cephfs-1/home/users/carol'',
       \<lparr>path = ''/data/cephfs-1/home/users/carol'', owner_name = ''carol'', owner_uid = 2003,
        group_name = ''alpha'', group_gid = 5000, perms = ''drwx--S---'', rbytes = None,
        rfiles = None, quota_bytes = Some 1073741824, quota_files = None\<rparr>),
      (''/data/cephfs-1/home/groups/ag-alpha'',
       tier_directory ''/data/cephfs-1'' ''home'' ''groups/ag-alpha'' carol ''alpha'' 5001 1073741824),
      (''/data/cephfs-1/scratch/groups/ag-alpha'',
       tier_directory ''/data/cephfs-1'' ''scratch'' ''groups/ag-alpha'' carol ''alpha'' 5001 1099511627776),
      (''/data/cephfs-1/work/groups/ag-alpha'',
       tier_directory ''/data/cephfs-1'' ''work'' ''groups/ag-alpha'' carol ''alpha'' 5001 3298534883328)]"

definition registry_pending :: HpcaccessState where
  "registry_pending =
     \<lparr>hpc_users = [(''u-carol'', carol)],
      hpc_groups = [(''g-alpha'', group_alpha\<lparr>HpcGroup.gid := None\<rparr>)],
      hpc_projects = []\<rparr>"

text \<open>
  A current state that holds the tier-1 scratch and work directories of the group
  \<open>ag-foo\<close>; the work directory holds 1 TB and belongs to the Unix group
  \<open>hpc-ag-ag-foo\<close>.
\<close>

definition work_foo :: FsDirectory where
  "work_foo =
     \<lparr>path = ''/data/cephfs-1/work/groups/ag-foo'', owner_name = ''carol'', owner_uid = 2003,
      group_name = ''hpc-ag-ag-foo'', group_gid = 5001, perms = ''drwxrwS---'',
      rbytes = Some (1024 ^ 4), rfiles = Some 3, quota_bytes = None, quota_files = None\<rparr>"

definition state_foo_work :: SystemState where
  "state_foo_work =
     \<lparr>ldap_users = [], ldap_groups = [],
      fs_directories = [(''/data/cephfs-1/scratch/groups/ag-foo'', scratch_foo),
                        (''/data/cephfs-1/work/groups/ag-foo'', work_foo)]\<rparr>"

section \<open>Notions used to state the properties\<close>

text \<open>
  The allocation of group ids as the specification words it: a record that has an id
  keeps it, any other record takes the value of the counter, which then advances by one.
  \<open>spec_allocate n gs\<close> is the list of ids after the allocation, for the counter \<open>n\<close> and
  the ids \<open>gs\<close> before it; a record has an id when Python reads its \<open>gid\<close> as true.
\<close>

fun spec_allocate :: "int \<Rightarrow> int option list \<Rightarrow> int option list" where
  "spec_allocate n [] = []"
| "spec_allocate n (g # gs) =
     (if truthy_int g then g # spec_allocate n gs else Some n # spec_allocate (n + 1) gs)"

text \<open>The number of records of a list of ids that need an allocation.\<close>

definition unnumbered :: "int option list \<Rightarrow> nat" where
  "unnumbered gs = length (filter (\<lambda>g. \<not> truthy_int g) gs)"

text \<open>The ids of the registry's groups followed by those of its projects.\<close>

definition registry_gids :: "HpcaccessState \<Rightarrow> int option list" where
  "registry_gids st =
     map (\<lambda>kv. HpcGroup.gid (snd kv)) (hpc_groups st)
     @ map (\<lambda>kv. HpcProject.gid (snd kv)) (hpc_projects st)"

text \<open>
  The numeric ids of the current state that seed the counter: the id of every group and
  the primary group id of every account that has one.
\<close>

definition current_gids :: "SystemState \<Rightarrow> int list" where
  "current_gids system_state =
     map LdapGroup.gid_number (dict_values (ldap_groups system_state))
     @ concat (map (\<lambda>u. if truthy_int (LdapUser.gid_number u)
                           then [the (LdapUser.gid_number u)] else [])
                   (dict_values (ldap_users system_state)))"

text \<open>
  How the loop over the groups changes a registry entry: the key stays, only the id may
  change, and an entry that has an id stays as it is.
\<close>

definition same_group :: "UUID \<times> HpcGroup \<Rightarrow> UUID \<times> HpcGroup \<Rightarrow> bool" where
  "same_group kg kg' =
     (fst kg' = fst kg \<and> (\<exists>m. snd kg' = (snd kg)\<lparr>HpcGroup.gid := m\<rparr>)
      \<and> (truthy_int (HpcGroup.gid (snd kg)) \<longrightarrow> snd kg' = snd kg))"

text \<open>The paths under which the builder stores the directories of a group and of a project.\<close>

definition group_paths :: "string \<Rightarrow> string list" where
  "group_paths nm =
     [''/data/cephfs-1/home/groups/ag-'' @ nm, ''/data/cephfs-1/scratch/groups/ag-'' @ nm,
      ''/data/cephfs-1/work/groups/ag-'' @ nm, ''/data/cephfs-2/unmirrored/groups/ag-'' @ nm,
      ''/data/cephfs-2/mirrored/groups/ag-'' @ nm]"

definition project_paths :: "string \<Rightarrow> string list" where
  "project_paths nm =
     [''/data/cephfs-1/home/projects/'' @ nm, ''/data/cephfs-1/scratch/projects/'' @ nm,
      ''/data/cephfs-1/work/projects/'' @ nm, ''/data/cephfs-2/unmirrored/projects/'' @ nm,
      ''/data/cephfs-2/mirrored/projects/'' @ nm]"

text \<open>
  The operations the third loop of \<open>compare_fs_directories\<close> appends for a common
  path.
\<close>

definition fs_update_ops :: "SystemState \<Rightarrow> SystemState \<Rightarrow> string \<Rightarrow> FsDirectoryOp list" where
  "fs_update_ops src dst p =
     (let s = the (map_of (fs_directories src) p); d = the (map_of (fs_directories dst) p)
      in if FsDirectory_model_dump s \<noteq> FsDirectory_model_dump d
         then [\<lparr>FsDirectoryOp.operation = UPDATE, directory = s,
                diff = diff_over [''owner_uid'', ''owner_gid'', ''perms'', ''quota_bytes'', ''quota_files'']
                         (FsDirectory_model_dump s) (FsDirectory_model_dump d)\<rparr>]
         else [])"

section \<open>Basic facts\<close>

lemma bind_result_Inr [simp]: "bind_result (Inr x) f = f x"
  by (simp add: bind_result_def)

lemma bind_result_Inl [simp]: "bind_result (Inl e) f = Inl e"
  by (simp add: bind_result_def)

lemma for_loop_append:
  "(\<And>x r. x \<in> set xs \<Longrightarrow> body x r = Inr (r @ f x)) \<Longrightarrow>
   for_loop body xs r = Inr (r @ concat (map f xs))"
  by (induction xs arbitrary: r) simp_all

lemma for_loop_skip:
  "(\<And>x. x \<in> set xs \<Longrightarrow> body x s = Inr s) \<Longrightarrow> for_loop body xs s = Inr s"
  by (induction xs) simp_all

lemma dict_item_key:
  assumes "k \<in> set (dict_keys d)"
  shows "dict_item d k = Inr (the (map_of d k))"
proof -
  from assms have "k \<in> dom (map_of d)"
    by (simp add: dict_keys_def dom_map_of_conv_image_fst)
  then obtain v where "map_of d k = Some v" by blast
  then show ?thesis by (simp add: dict_item_def dict_get_def)
qed

lemma map_of_key: "map_of d k = Some v \<Longrightarrow> k \<in> set (dict_keys d)"
  by (auto simp: dict_keys_def dest: map_of_SomeD intro: rev_image_eqI)

lemma set_difference_self [simp]: "set_difference xs xs = []"
  by (simp add: set_difference_def)

lemma set_set_difference [simp]: "set (set_difference xs ys) = set xs - set ys"
  by (auto simp: set_difference_def)

lemma set_set_intersection [simp]: "set (set_intersection xs ys) = set xs \<inter> set ys"
  by (auto simp: set_intersection_def)

section \<open>The comparison\<close>

lemma compare_ldap_users_same: "compare_ldap_users s s = Inr []"
  unfolding compare_ldap_users_def Let_def
  by (simp, rule for_loop_skip) (simp add: dict_item_key)

lemma compare_ldap_groups_same: "compare_ldap_groups s s = Inr []"
  unfolding compare_ldap_groups_def Let_def
  by (simp, rule for_loop_skip) (simp add: dict_item_key)

lemma compare_fs_directories_same: "compare_fs_directories s s = Inr []"
  unfolding compare_fs_directories_def Let_def
  by (simp, rule for_loop_skip) (simp add: dict_item_key)

text \<open>
  Claim C1. The comparison should emit one CREATE operation, carrying the desired
  entity, for every key that only the desired state has, and never fail on such a key.
  For accounts it does fail: the loop over the missing user names looks each name up in
  the current state, where it is not, so the comparison of an empty current state with a
  desired state that holds the one account \<open>alice\<close> raises \<open>KeyError\<close>.
\<close>

theorem compare_missing_account_raises:
  "TargetStateComparison_run state_empty (state_empty\<lparr>ldap_users := [(''alice'', alice)]\<rparr>)
     = Inl (KeyError ''alice'')"
  by (simp add: TargetStateComparison_run_def compare_ldap_users_def state_empty_def
      set_difference_def set_intersection_def dict_keys_def dict_item_def dict_get_def)

text \<open>
  Claim C2. Comparing a system state with itself yields an operation set whose three
  lists (account, group and directory operations) are all empty.
\<close>

theorem comparison_of_equal_states_is_empty:
  "TargetStateComparison_run S S =
     Inr \<lparr>OperationsContainer.ldap_user_ops = [], ldap_group_ops = [], fs_ops = []\<rparr>"
  by (simp add: TargetStateComparison_run_def compare_ldap_users_same compare_ldap_groups_same
      compare_fs_directories_same)

text \<open>
  Claim C3. The diff of a directory UPDATE should hold a field exactly when the field
  is on the allow-list (owner uid, group gid, permissions, byte quota, file quota) and
  its two values differ; a change of the group gid alone should give a diff with the
  group field. The loop of the comparison reads the key \<open>owner_gid\<close>, which no
  directory has, in place of \<open>group_gid\<close>: when only the group gid of the directory of
  \<open>bob\<close> changes from 1000 to 1001, the UPDATE operation carries an empty diff.
\<close>

theorem group_gid_change_gives_empty_diff:
  "compare_fs_directories state_bob
     (state_empty\<lparr>fs_directories :=
        [(''/data/cephfs-1/home/users/bob'', home_bob\<lparr>group_gid := 1001\<rparr>)]\<rparr>)
   = Inr [\<lparr>FsDirectoryOp.operation = UPDATE, directory = home_bob, diff = []\<rparr>]"
  by (simp add: compare_fs_directories_def state_bob_def state_empty_def set_difference_def
      set_intersection_def dict_keys_def dict_item_def dict_get_def FsDirectory_model_dump_def
      home_bob_def diff_over_def dump_get_def dict_set_def)

lemma compare_fs_directories_eq:
  "compare_fs_directories src dst =
     Inr (concat (map (\<lambda>p. [\<lparr>FsDirectoryOp.operation = DISABLE,
                               directory = the (map_of (fs_directories src) p), diff = []\<rparr>])
                   (set_difference (dict_keys (fs_directories src)) (dict_keys (fs_directories dst))))
          @ concat (map (\<lambda>p. [\<lparr>FsDirectoryOp.operation = CREATE,
                               directory = the (map_of (fs_directories dst) p), diff = []\<rparr>])
                   (set_difference (dict_keys (fs_directories dst)) (dict_keys (fs_directories src))))
          @ concat (map (fs_update_ops src dst)
                   (set_intersection (dict_keys (fs_directories src)) (dict_keys (fs_directories dst)))))"
  unfolding compare_fs_directories_def Let_def
  apply (subst for_loop_append [where f = "\<lambda>p. [\<lparr>FsDirectoryOp.operation = DISABLE,
                               directory = the (map_of (fs_directories src) p), diff = []\<rparr>]"])
   apply (simp add: dict_item_key)
  apply (simp only: bind_result_Inr)
  apply (subst for_loop_append [where f = "\<lambda>p. [\<lparr>FsDirectoryOp.operation = CREATE,
                               directory = the (map_of (fs_directories dst) p), diff = []\<rparr>]"])
   apply (simp add: dict_item_key)
  apply (simp only: bind_result_Inr)
  apply (subst for_loop_append [where f = "fs_update_ops src dst"])
   apply (simp add: dict_item_key fs_update_ops_def Let_def)
  apply simp
  done

lemma map_option_FInt_eq [simp]: "(map_option FInt a = map_option FInt b) = (a = b)"
  by (cases a; cases b) simp_all

lemma FsDirectory_model_dump_inj:
  "FsDirectory_model_dump a = FsDirectory_model_dump b \<Longrightarrow> a = b"
  by (cases a, cases b) (simp add: FsDirectory_model_dump_def)

lemma diff_over_allow_list_empty:
  assumes "owner_uid s = owner_uid d" "perms s = perms d"
    "quota_bytes s = quota_bytes d" "quota_files s = quota_files d"
  shows "diff_over [''owner_uid'', ''owner_gid'', ''perms'', ''quota_bytes'', ''quota_files'']
           (FsDirectory_model_dump s) (FsDirectory_model_dump d) = []"
  using assms by (simp add: diff_over_def dump_get_def dict_get_def FsDirectory_model_dump_def)

text \<open>
  Claim C10. When a path is in both states and the two directories differ, but only
  in fields outside the allow-list (path, owner name, group name, observed bytes and
  files), the comparison still emits an UPDATE operation for the current directory, with
  an empty diff, and applying that operation runs no command, dry run or not.
\<close>

theorem unlisted_change_gives_empty_update:
  assumes "dict_get (fs_directories src) p = Some s"
    and "dict_get (fs_directories dst) p = Some d"
    and "s \<noteq> d"
    and "owner_uid s = owner_uid d" and "group_gid s = group_gid d" and "perms s = perms d"
    and "quota_bytes s = quota_bytes d" and "quota_files s = quota_files d"
  shows "\<exists>ops. compare_fs_directories src dst = Inr ops
           \<and> \<lparr>FsDirectoryOp.operation = UPDATE, directory = s, diff = []\<rparr> \<in> set ops
           \<and> apply_fs_op \<lparr>FsDirectoryOp.operation = UPDATE, directory = s, diff = []\<rparr> dry sp
               = Inr sp"
proof -
  let ?op = "\<lparr>FsDirectoryOp.operation = UPDATE, directory = s, diff = []\<rparr>"
  have dump: "FsDirectory_model_dump s \<noteq> FsDirectory_model_dump d"
    using assms(3) FsDirectory_model_dump_inj by blast
  have "fs_update_ops src dst p = [?op]"
    using assms dump by (simp add: fs_update_ops_def dict_get_def diff_over_allow_list_empty)
  moreover have "p \<in> set (set_intersection (dict_keys (fs_directories src))
                            (dict_keys (fs_directories dst)))"
    using assms(1,2) by (simp add: dict_get_def map_of_key)
  ultimately have "?op \<in> set (concat (map (fs_update_ops src dst)
        (set_intersection (dict_keys (fs_directories src)) (dict_keys (fs_directories dst)))))"
    by (metis (no_types, lifting) list.set_intros(1) image_eqI set_concat set_map UN_I)
  moreover have "apply_fs_op ?op dry sp = Inr sp"
    by (simp add: apply_fs_op_def fs_op_update_def)
  ultimately show ?thesis
    by (simp add: compare_fs_directories_eq)
qed

theorem unlisted_change_gives_empty_update_witness:
  "dict_get (fs_directories state_bob) ''/data/cephfs-1/home/users/bob'' = Some home_bob
   \<and> home_bob \<noteq> home_bob\<lparr>rbytes := Some 20\<rparr>
   \<and> (\<exists>ops. compare_fs_directories state_bob
               (state_empty\<lparr>fs_directories :=
                  [(''/data/cephfs-1/home/users/bob'', home_bob\<lparr>rbytes := Some 20\<rparr>)]\<rparr>) = Inr ops
           \<and> \<lparr>FsDirectoryOp.operation = UPDATE, directory = home_bob, diff = []\<rparr> \<in> set ops
           \<and> apply_fs_op \<lparr>FsDirectoryOp.operation = UPDATE, directory = home_bob, diff = []\<rparr>
                False subprocess_ok = Inr subprocess_ok)"
proof -
  have 1: "dict_get (fs_directories state_bob) ''/data/cephfs-1/home/users/bob'' = Some home_bob"
    by (simp add: state_bob_def state_empty_def dict_get_def)
  have 2: "dict_get (fs_directories (state_empty\<lparr>fs_directories :=
                  [(''/data/cephfs-1/home/users/bob'', home_bob\<lparr>rbytes := Some 20\<rparr>)]\<rparr>))
             ''/data/cephfs-1/home/users/bob'' = Some (home_bob\<lparr>rbytes := Some 20\<rparr>)"
    by (simp add: state_empty_def dict_get_def)
  have 3: "home_bob \<noteq> home_bob\<lparr>rbytes := Some 20\<rparr>"
    by (simp add: home_bob_def)
  show ?thesis
    using 1 3 unlisted_change_gives_empty_update [OF 1 2 3, of False subprocess_ok]
    by simp
qed

section \<open>The executors and the state-sync command\<close>

text \<open>
  Claim C4. A group operation handed to the executor should reach the handler of its
  tag: CREATE inserts the group, UPDATE applies the changed fields. \<open>apply_group_op\<close>
  compares the operation object, not its tag, with the three tags; an operation object
  equals none of them, so no handler runs and the connection is left as it was,
  whatever the operation (CREATE and UPDATE included) and dry run or not.
\<close>

theorem apply_group_op_reaches_no_handler:
  "apply_group_op conn op dry = Inr conn"
  by (simp add: apply_group_op_def py_eq_def)

text \<open>
  Claim C5. The state-sync command should apply an operation only if its tag is in the
  subset configured for its entity class. The command stores the three subsets in its
  settings and never reads them again: with directory operations restricted to CREATE,
  an empty registry and a current state that holds the one directory of \<open>bob\<close>, the
  DISABLE operation for that directory is applied all the same and \<open>setfattr\<close> runs.
\<close>

theorem sync_data_ignores_configured_operations:
  "sync_data camelize default_settings [] [] [CREATE] False state_bob registry_empty conn
     subprocess_ok
   = Inr (default_settings\<lparr>Settings.fs_ops := [CREATE]\<rparr>, conn,
          subprocess_ok\<lparr>calls := [[''setfattr'', ''-n'', ''ceph-quota.max_files'', ''-v'', ''0'',
                                     ''/data/cephfs-1/home/users/bob'']]\<rparr>)"
  by (simp add: sync_data_def TargetStateBuilder_run_def build_def build_ldap_groups_def
      registry_empty_def build_ldap_users_def build_fs_directories_def dict_values_def dict_set_def
      get_next_gid_def state_bob_def state_empty_def TargetStateComparison_run_def
      compare_ldap_users_def compare_ldap_groups_def compare_fs_directories_def
      set_difference_def set_intersection_def dict_keys_def dict_item_def dict_get_def
      apply_group_op_def py_eq_def apply_fs_op_def fs_op_disable_def check_call_def
      subprocess_ok_def home_bob_def default_settings_def)

section \<open>The builder: numeric group ids\<close>

lemma bind_result_eq_Inr:
  "bind_result r f = Inr y \<longleftrightarrow> (\<exists>x. r = Inr x \<and> f x = Inr y)"
  by (cases r) simp_all

lemma unnumbered_simps [simp]:
  "unnumbered [] = 0"
  "unnumbered (g # gs) = (if truthy_int g then unnumbered gs else Suc (unnumbered gs))"
  "unnumbered (xs @ ys) = unnumbered xs + unnumbered ys"
  by (simp_all add: unnumbered_def)

lemma spec_allocate_append:
  "spec_allocate n (xs @ ys) = spec_allocate n xs @ spec_allocate (n + int (unnumbered xs)) ys"
proof (induction xs arbitrary: n)
  case Nil
  show ?case by simp
next
  case (Cons g gs)
  show ?case
    using Cons.IH [of n] Cons.IH [of "n + 1"] by (simp add: add.assoc)
qed

lemma length_spec_allocate [simp]: "length (spec_allocate n gs) = length gs"
  by (induction gs arbitrary: n) simp_all

lemma spec_allocate_nth:
  "i < length gs \<Longrightarrow>
   spec_allocate n gs ! i =
     (if truthy_int (gs ! i) then gs ! i else Some (n + int (unnumbered (take i gs))))"
proof (induction gs arbitrary: n i)
  case Nil
  then show ?case by simp
next
  case (Cons g gs)
  show ?case
  proof (cases i)
    case 0
    then show ?thesis by simp
  next
    case (Suc j)
    with Cons.prems have j: "j < length gs" by simp
    show ?thesis
      using Cons.IH [OF j, of n] Cons.IH [OF j, of "n + 1"] Suc by (simp add: add.assoc)
  qed
qed

lemma unnumbered_take_le:
  "a \<le> b \<Longrightarrow> unnumbered (take a gs) \<le> unnumbered (take b gs)"
proof -
  assume "a \<le> b"
  then obtain c where "b = a + c" using le_Suc_ex by blast
  then show ?thesis by (simp add: take_add)
qed

lemma unnumbered_take_mono:
  assumes "i < j" "j < length gs" "\<not> truthy_int (gs ! i)"
  shows "unnumbered (take i gs) < unnumbered (take j gs)"
proof -
  from assms have "i < length gs" by simp
  then have "take (Suc i) gs = take i gs @ [gs ! i]" by (rule take_Suc_conv_app_nth)
  with assms(3) have "unnumbered (take (Suc i) gs) = Suc (unnumbered (take i gs))" by simp
  moreover from assms(1) have "unnumbered (take (Suc i) gs) \<le> unnumbered (take j gs)"
    by (intro unnumbered_take_le) simp
  ultimately show ?thesis by simp
qed

lemma build_ldap_groups_groups_gids:
  "build_ldap_groups_groups users gs n r = Inr (gs', n', r') \<Longrightarrow>
   map (\<lambda>kv. HpcGroup.gid (snd kv)) gs' = spec_allocate n (map (\<lambda>kv. HpcGroup.gid (snd kv)) gs)
   \<and> n' = n + int (unnumbered (map (\<lambda>kv. HpcGroup.gid (snd kv)) gs))"
proof (induction gs arbitrary: n r gs' n' r')
  case Nil
  then show ?case by simp
next
  case (Cons kg gs)
  obtain k g where kg: "kg = (k, g)" by (cases kg)
  show ?case
  proof (cases "truthy_int (HpcGroup.gid g)")
    case True
    with Cons.prems kg obtain gs1 r1 where
      rec: "build_ldap_groups_groups users gs n r1 = Inr (gs1, n', r')" and gs': "gs' = (k, g) # gs1"
      by (auto simp: Let_def bind_result_eq_Inr split: prod.splits)
    from Cons.IH [OF rec] gs' kg True show ?thesis by simp
  next
    case False
    with Cons.prems kg obtain gs1 r1 where
      rec: "build_ldap_groups_groups users gs (n + 1) r1 = Inr (gs1, n', r')"
      and gs': "gs' = (k, g\<lparr>HpcGroup.gid := Some n\<rparr>) # gs1"
      by (auto simp: Let_def bind_result_eq_Inr split: prod.splits)
    from Cons.IH [OF rec] gs' kg False show ?thesis by simp
  qed
qed

lemma build_ldap_groups_projects_gids:
  "build_ldap_groups_projects users groups ps n r = Inr (ps', n', r') \<Longrightarrow>
   map (\<lambda>kv. HpcProject.gid (snd kv)) ps' = spec_allocate n (map (\<lambda>kv. HpcProject.gid (snd kv)) ps)
   \<and> n' = n + int (unnumbered (map (\<lambda>kv. HpcProject.gid (snd kv)) ps))"
proof (induction ps arbitrary: n r ps' n' r')
  case Nil
  then show ?case by simp
next
  case (Cons kp ps)
  obtain k p where kp: "kp = (k, p)" by (cases kp)
  show ?case
  proof (cases "truthy_int (HpcProject.gid p)")
    case True
    with Cons.prems kp obtain ps1 r1 where
      rec: "build_ldap_groups_projects users groups ps n r1 = Inr (ps1, n', r')"
      and ps': "ps' = (k, p) # ps1"
      by (auto simp: Let_def bind_result_eq_Inr split: prod.splits)
    from Cons.IH [OF rec] ps' kp True show ?thesis by simp
  next
    case False
    with Cons.prems kp obtain ps1 r1 where
      rec: "build_ldap_groups_projects users groups ps (n + 1) r1 = Inr (ps1, n', r')"
      and ps': "ps' = (k, p\<lparr>HpcProject.gid := Some n\<rparr>) # ps1"
      by (auto simp: Let_def bind_result_eq_Inr split: prod.splits)
    from Cons.IH [OF rec] ps' kp False show ?thesis by simp
  qed
qed

lemma build_ldap_groups_gids:
  assumes "build_ldap_groups state n = Inr (state', n', result)"
  shows "registry_gids state' = spec_allocate n (registry_gids state)"
    and "n' = n + int (unnumbered (registry_gids state))"
proof -
  from assms obtain gs1 n1 r1 ps1 where
    g: "build_ldap_groups_groups (hpc_users state) (hpc_groups state) n [] = Inr (gs1, n1, r1)"
    and p: "build_ldap_groups_projects (hpc_users state) gs1 (hpc_projects state) n1 r1
             = Inr (ps1, n', result)"
    and st: "state' = state\<lparr>hpc_groups := gs1, hpc_projects := ps1\<rparr>"
    by (auto simp: build_ldap_groups_def bind_result_eq_Inr split: prod.splits)
  from build_ldap_groups_groups_gids [OF g] build_ldap_groups_projects_gids [OF p] st
  show "registry_gids state' = spec_allocate n (registry_gids state)"
    and "n' = n + int (unnumbered (registry_gids state))"
    by (simp_all add: registry_gids_def spec_allocate_append)
qed

lemma get_next_gid_seed:
  "get_next_gid system_state =
     (if current_gids system_state = [] then 1000 else Max (set (current_gids system_state)) + 1)"
  unfolding get_next_gid_def current_gids_def Let_def by metis

text \<open>
  Claim C6, as amended. For the groups of the registry followed by its projects: a
  record whose numeric id is not zero keeps it; every other record (no id, or the id 0,
  which the test \<open>not group.gid\<close> reads as missing) is given the next value of one
  counter shared by groups and projects. The counter starts at the greatest numeric id of
  the current state plus one, or at 1000 when the current state has none, and advances by
  one for each allocation: the record at position \<open>i\<close> that needs an id receives the
  start value plus the number of earlier records that needed one. Hence no two
  allocations of a run are equal.
\<close>

theorem gid_allocation:
  assumes "build_ldap_groups state (get_next_gid system_state) = Inr (state', next_gid', result)"
  shows "get_next_gid system_state =
           (if current_gids system_state = [] then 1000
            else Max (set (current_gids system_state)) + 1)
    \<and> length (registry_gids state') = length (registry_gids state)
    \<and> (\<forall>i < length (registry_gids state).
          registry_gids state' ! i =
            (if truthy_int (registry_gids state ! i) then registry_gids state ! i
             else Some (get_next_gid system_state + int (unnumbered (take i (registry_gids state))))))
    \<and> (\<forall>i j. i < j \<and> j < length (registry_gids state)
            \<and> \<not> truthy_int (registry_gids state ! i) \<and> \<not> truthy_int (registry_gids state ! j)
          \<longrightarrow> registry_gids state' ! i \<noteq> registry_gids state' ! j)"
proof -
  note eq = build_ldap_groups_gids(1) [OF assms]
  have nth: "registry_gids state' ! i =
            (if truthy_int (registry_gids state ! i) then registry_gids state ! i
             else Some (get_next_gid system_state + int (unnumbered (take i (registry_gids state)))))"
    if "i < length (registry_gids state)" for i
    using that by (simp add: eq spec_allocate_nth)
  have distinct: "registry_gids state' ! i \<noteq> registry_gids state' ! j"
    if "i < j" "j < length (registry_gids state)"
      "\<not> truthy_int (registry_gids state ! i)" "\<not> truthy_int (registry_gids state ! j)" for i j
  proof -
    from that have "i < length (registry_gids state)" by simp
    with that nth [of i] nth [of j] unnumbered_take_mono [OF that(1,2,3)]
    show ?thesis by simp
  qed
  show ?thesis
    using nth distinct by (simp add: eq get_next_gid_seed [symmetric])
qed


theorem gid_allocation_witness:
  "build_ldap_groups registry_new (get_next_gid state_1006)
     = Inr (registry_new_built, 1009, ldap_groups_new)
   \<and> current_gids state_1006 = [1000, 1005, 1006]
   \<and> registry_gids registry_new = [None, None]
   \<and> registry_gids registry_new_built ! 0 = Some 1007
   \<and> registry_gids registry_new_built ! 1 = Some 1008"
proof -
  have seed: "get_next_gid state_1006 = 1007"
    by (simp add: get_next_gid_def state_1006_def dict_values_def ldap_team_def)
  have current: "current_gids state_1006 = [1000, 1005, 1006]"
    by (simp add: current_gids_def state_1006_def dict_values_def ldap_team_def)
  have built: "build_ldap_groups registry_new (get_next_gid state_1006)
     = Inr (registry_new_built, 1009, ldap_groups_new)"
    by (simp add: seed build_ldap_groups_def registry_new_def registry_new_built_def
        ldap_groups_new_def group_new_def group_alpha_def carol_def carol_dn_def ldap_team_def
        truthy_int_def dict_item_def dict_get_def dict_set_def user_dn_def endswith_def
        POSIX_AG_PREFIX_def BASE_DN_GROUPS_def BASE_DN_CHARITE_def Let_def)
  have before: "registry_gids registry_new = [None, None]"
    by (simp add: registry_gids_def registry_new_def group_new_def)
  from gid_allocation [OF built]
  have "\<forall>i < length (registry_gids registry_new).
          registry_gids registry_new_built ! i =
            (if truthy_int (registry_gids registry_new ! i) then registry_gids registry_new ! i
             else Some (get_next_gid state_1006
                        + int (unnumbered (take i (registry_gids registry_new)))))"
    by blast
  then have "registry_gids registry_new_built ! 0 = Some 1007"
    and "registry_gids registry_new_built ! 1 = Some 1008"
    by (simp_all add: before seed truthy_int_def)
  with built current before show ?thesis by simp
qed

text \<open>
  Claim C6 as stated fails for a record whose numeric id is 0: with an empty current
  state, the group with the id 0 does not keep it but is given the id 1000.
\<close>

theorem gid_zero_is_replaced:
  "registry_gids registry_zero = [Some 0]
   \<and> build_ldap_groups registry_zero (get_next_gid state_empty)
       = Inr (registry_zero_built, 1001, [(''hpc-ag-zero'', ldap_team ''zero'' 1000 (Some carol_dn))])
   \<and> registry_gids registry_zero_built = [Some 1000]"
  by (simp add: get_next_gid_def state_empty_def dict_values_def build_ldap_groups_def
      registry_zero_def registry_zero_built_def registry_gids_def
      group_new_def group_alpha_def carol_def carol_dn_def ldap_team_def
      truthy_int_def dict_item_def dict_get_def dict_set_def user_dn_def endswith_def
      POSIX_AG_PREFIX_def BASE_DN_GROUPS_def BASE_DN_CHARITE_def Let_def)

section \<open>The builder: directories\<close>

lemma for_loop_invariant:
  assumes "\<And>x s s'. x \<in> set xs \<Longrightarrow> body x s = Inr s' \<Longrightarrow> Q s \<Longrightarrow> Q s'"
    and "for_loop body xs s = Inr s'"
    and "Q s"
  shows "Q s'"
  using assms
proof (induction xs arbitrary: s)
  case Nil
  then show ?case by simp
next
  case (Cons x xs)
  from Cons.prems(2) obtain s1 where 1: "body x s = Inr s1" and 2: "for_loop body xs s1 = Inr s'"
    by (auto split: sum.splits)
  have step: "\<And>y t t'. y \<in> set xs \<Longrightarrow> body y t = Inr t' \<Longrightarrow> Q t \<Longrightarrow> Q t'"
    using Cons.prems(1) by (meson list.set_intros(2))
  have "Q s1"
    using Cons.prems(1) [of x s s1] 1 Cons.prems(3) by simp
  with Cons.IH [OF step 2] show ?case by simp
qed

lemma for_loop_establish:
  assumes "x \<in> set xs"
    and "\<And>s s'. body x s = Inr s' \<Longrightarrow> Q s'"
    and "\<And>y s s'. y \<in> set xs \<Longrightarrow> body y s = Inr s' \<Longrightarrow> Q s \<Longrightarrow> Q s'"
    and "for_loop body xs s = Inr s'"
  shows "Q s'"
  using assms(1,3,4)
proof (induction xs arbitrary: s)
  case Nil
  then show ?case by simp
next
  case (Cons y ys)
  from Cons.prems(3) obtain s1 where 1: "body y s = Inr s1" and 2: "for_loop body ys s1 = Inr s'"
    by (auto split: sum.splits)
  have step: "\<And>z t t'. z \<in> set ys \<Longrightarrow> body z t = Inr t' \<Longrightarrow> Q t \<Longrightarrow> Q t'"
    using Cons.prems(2) by (meson list.set_intros(2))
  show ?case
  proof (cases "x = y")
    case True
    with 1 assms(2) have "Q s1" by simp
    with for_loop_invariant [of ys body Q s1 s', OF step 2] show ?thesis by simp
  next
    case False
    with Cons.prems(1) have "x \<in> set ys" by simp
    from Cons.IH [OF this step 2] show ?thesis .
  qed
qed

lemma dict_get_dict_set:
  "dict_get (dict_set r k v) p = (if p = k then Some v else dict_get r p)"
  by (simp add: dict_get_def dict_set_def update_conv')

lemma dict_get_store_directory:
  "dict_get (store_directory r d) p = (if p = path d then Some d else dict_get r p)"
  by (simp add: store_directory_def dict_get_dict_set)

lemma tier_directory_simps [simp]:
  "path (tier_directory b v f ow gn gi q) = b @ ''/'' @ v @ ''/'' @ f"
  "quota_bytes (tier_directory b v f ow gn gi q) = Some (py_int q)"
  "group_gid (tier_directory b v f ow gn gi q) = gi"
  by (simp_all add: tier_directory_def)

lemma tier2_loop_frame:
  assumes "for_loop (\<lambda>variant result.
            bind_result (f variant) (\<lambda>quota.
              if c quota then Inr result
              else Inr (store_directory result
                          (tier_directory BASE_PATH_TIER2 variant folder ow gn gi quota))))
            [''unmirrored'', ''mirrored''] r = Inr r'"
    and "p \<noteq> ''/data/cephfs-2/unmirrored/'' @ folder"
    and "p \<noteq> ''/data/cephfs-2/mirrored/'' @ folder"
  shows "dict_get r' p = dict_get r p"
  using assms
  by (auto simp: bind_result_eq_Inr dict_get_store_directory BASE_PATH_TIER2_def
      split: sum.splits if_splits)


lemma py_int_of_int [simp]: "py_int (real_of_int n) = n"
  by (simp add: py_int_def)

lemma py_int_two_tb [simp]: "py_int (2 * 1024 * 1024 * 1024 * 1024) = 2 * 1024 ^ 4"
  by (simp add: py_int_def)

lemma py_int_numeral [simp]: "py_int (numeral k) = numeral k"
  by (simp add: py_int_def)

lemma frame_group:
  assumes "fs_directories_group st g r = Inr r'"
    and "p \<notin> set (group_paths (strip_prefix (HpcGroup.name g) (Some POSIX_AG_PREFIX)))"
  shows "dict_get r' p = dict_get r p"
proof (cases "truthy_int (HpcGroup.gid g)")
  case False
  with assms(1) show ?thesis by (simp add: fs_directories_group_def)
next
  case gid: True
  show ?thesis
  proof (cases "HpcGroup.resources_requested g")
    case None
    with gid assms(1) show ?thesis
      by (simp add: fs_directories_group_def Let_def bind_result_eq_Inr requested_def)
  next
    case (Some rr)
    show ?thesis
    proof (cases "truthy_float (ResourceData.tier1_work rr)")
      case False
      with gid Some assms(1) show ?thesis
        by (auto simp: fs_directories_group_def Let_def bind_result_eq_Inr requested_def)
    next
      case work: True
      show ?thesis
      proof (cases "truthy_float (ResourceData.tier1_scratch rr)")
        case False
        with work gid Some assms(1) show ?thesis
          by (auto simp: fs_directories_group_def Let_def bind_result_eq_Inr requested_def)
      next
        case True
        with work gid Some assms show ?thesis
          apply (simp add: fs_directories_group_def Let_def bind_result_eq_Inr requested_def
              group_paths_def del: for_loop.simps)
          apply (elim exE conjE)
          apply (drule tier2_loop_frame [where p = p])
            apply simp
           apply simp
          apply (simp add: dict_get_store_directory BASE_PATH_TIER1_def)
          done
      qed
    qed
  qed
qed

lemma establish_group:
  assumes "fs_directories_group st g r = Inr r'"
    and "HpcGroup.gid g = Some n" and "n \<noteq> 0"
    and "HpcGroup.resources_requested g = Some rr"
    and "ResourceData.tier1_work rr = 2" and "ResourceData.tier1_scratch rr \<noteq> 0"
  shows "\<exists>w h. dict_get r' (''/data/cephfs-1/work/groups/ag-''
                    @ strip_prefix (HpcGroup.name g) (Some POSIX_AG_PREFIX)) = Some w
           \<and> quota_bytes w = Some (2 * 1024 ^ 4) \<and> group_gid w = n
           \<and> dict_get r' (''/data/cephfs-1/home/groups/ag-''
                    @ strip_prefix (HpcGroup.name g) (Some POSIX_AG_PREFIX)) = Some h
           \<and> quota_bytes h = Some QUOTA_HOME_BYTES \<and> group_gid h = n"
  using assms
  apply (simp add: fs_directories_group_def Let_def bind_result_eq_Inr requested_def
      truthy_int_def truthy_float_def del: for_loop.simps)
  apply (elim exE conjE)
  apply (frule tier2_loop_frame [where p = "''/data/cephfs-1/work/groups/ag-''
                    @ strip_prefix (HpcGroup.name g) (Some POSIX_AG_PREFIX)"])
    apply simp
   apply simp
  apply (drule tier2_loop_frame [where p = "''/data/cephfs-1/home/groups/ag-''
                    @ strip_prefix (HpcGroup.name g) (Some POSIX_AG_PREFIX)"])
    apply simp
   apply simp
  apply (simp add: dict_get_store_directory BASE_PATH_TIER1_def)
  done


lemma frame_project:
  assumes "fs_directories_project st lg pr r = Inr r'"
    and "\<And>nm. p \<notin> set (project_paths nm)"
  shows "dict_get r' p = dict_get r p"
proof (cases "truthy_int (HpcProject.gid pr)")
  case False
  with assms(1) show ?thesis by (simp add: fs_directories_project_def)
next
  case gid: True
  show ?thesis
  proof (cases "HpcProject.group pr")
    case None
    with gid assms(1) show ?thesis by (simp add: fs_directories_project_def)
  next
    case pg: (Some project_group)
    show ?thesis
    proof (cases lg)
      case None
      with gid pg assms(1) show ?thesis
        by (simp add: fs_directories_project_def bind_result_eq_Inr)
    next
      case lg: (Some last_group)
      show ?thesis
      proof (cases "HpcProject.resources_requested pr")
        case None
        with gid pg lg assms(1) show ?thesis
          by (simp add: fs_directories_project_def Let_def bind_result_eq_Inr requested_def)
      next
        case (Some rr)
        show ?thesis
        proof (cases "truthy_float (ResourceData.tier1_work rr)")
          case False
          with gid pg lg Some assms(1) show ?thesis
            by (auto simp: fs_directories_project_def Let_def bind_result_eq_Inr requested_def)
        next
          case work: True
          show ?thesis
          proof (cases "truthy_float (ResourceData.tier1_scratch rr)")
            case False
            with work gid pg lg Some assms(1) show ?thesis
              by (auto simp: fs_directories_project_def Let_def bind_result_eq_Inr requested_def)
          next
            case True
            with work gid pg lg Some assms(1)
              assms(2) [of "strip_prefix (HpcGroup.name last_group) (Some POSIX_PROJECT_PREFIX)"]
            show ?thesis
              apply (simp add: fs_directories_project_def Let_def bind_result_eq_Inr requested_def
                  project_paths_def del: for_loop.simps)
              apply (elim exE conjE)
              apply (drule tier2_loop_frame [where p = p])
                apply simp
               apply simp
              apply (simp add: dict_get_store_directory BASE_PATH_TIER1_def)
              done
          qed
        qed
      qed
    qed
  qed
qed

lemma build_fs_directories_two_terabytes:
  assumes "build_fs_directories st = Inr dirs"
    and "g \<in> set (dict_values (hpc_groups st))"
    and "HpcGroup.gid g = Some n" and "n \<noteq> 0"
    and "HpcGroup.resources_requested g = Some rr"
    and "ResourceData.tier1_work rr = 2" and "ResourceData.tier1_scratch rr \<noteq> 0"
    and "\<forall>g' \<in> set (dict_values (hpc_groups st)).
           strip_prefix (HpcGroup.name g') (Some POSIX_AG_PREFIX)
             = strip_prefix (HpcGroup.name g) (Some POSIX_AG_PREFIX) \<longrightarrow> g' = g"
  shows "\<exists>w h. dict_get dirs (''/data/cephfs-1/work/groups/ag-''
                    @ strip_prefix (HpcGroup.name g) (Some POSIX_AG_PREFIX)) = Some w
           \<and> quota_bytes w = Some (2 * 1024 ^ 4) \<and> group_gid w = n
           \<and> dict_get dirs (''/data/cephfs-1/home/groups/ag-''
                    @ strip_prefix (HpcGroup.name g) (Some POSIX_AG_PREFIX)) = Some h
           \<and> quota_bytes h = Some QUOTA_HOME_BYTES \<and> group_gid h = n"
proof -
  let ?nm = "strip_prefix (HpcGroup.name g) (Some POSIX_AG_PREFIX)"
  let ?Q = "\<lambda>r. \<exists>w h. dict_get r (''/data/cephfs-1/work/groups/ag-'' @ ?nm) = Some w
           \<and> quota_bytes w = Some (2 * 1024 ^ 4) \<and> group_gid w = n
           \<and> dict_get r (''/data/cephfs-1/home/groups/ag-'' @ ?nm) = Some h
           \<and> quota_bytes h = Some QUOTA_HOME_BYTES \<and> group_gid h = n"
  from assms(1) obtain r1 r2 where
    groups: "for_loop (fs_directories_group st) (dict_values (hpc_groups st)) r1 = Inr r2"
    and projects: "for_loop (fs_directories_project st
                     (if dict_values (hpc_groups st) = [] then None
                      else Some (last (dict_values (hpc_groups st)))))
                   (dict_values (hpc_projects st)) r2 = Inr dirs"
    by (auto simp: build_fs_directories_def Let_def bind_result_eq_Inr)
  have establish: "?Q s'" if "fs_directories_group st g s = Inr s'" for s s'
    using establish_group [OF that assms(3-7)] .
  have keep: "?Q s'"
    if "g' \<in> set (dict_values (hpc_groups st))" "fs_directories_group st g' s = Inr s'" "?Q s"
    for g' s s'
  proof (cases "strip_prefix (HpcGroup.name g') (Some POSIX_AG_PREFIX) = ?nm")
    case True
    with assms(8) that(1) have "g' = g" by blast
    with that(2) establish show ?thesis by blast
  next
    case False
    then have "dict_get s' (''/data/cephfs-1/work/groups/ag-'' @ ?nm)
                 = dict_get s (''/data/cephfs-1/work/groups/ag-'' @ ?nm)"
      and "dict_get s' (''/data/cephfs-1/home/groups/ag-'' @ ?nm)
                 = dict_get s (''/data/cephfs-1/home/groups/ag-'' @ ?nm)"
      by (auto intro!: frame_group [OF that(2)] simp: group_paths_def)
    with that(3) show ?thesis by simp
  qed
  have "?Q r2"
    by (rule for_loop_establish [where Q = ?Q, OF assms(2) establish keep groups])
  moreover have "?Q s'"
    if "fs_directories_project st lg pr s = Inr s'" "?Q s" for lg pr s s'
  proof -
    have "dict_get s' (''/data/cephfs-1/work/groups/ag-'' @ ?nm)
                 = dict_get s (''/data/cephfs-1/work/groups/ag-'' @ ?nm)"
      and "dict_get s' (''/data/cephfs-1/home/groups/ag-'' @ ?nm)
                 = dict_get s (''/data/cephfs-1/home/groups/ag-'' @ ?nm)"
      by (auto intro!: frame_project [OF that(1)] simp: project_paths_def)
    with that(2) show ?thesis by simp
  qed
  ultimately show ?thesis
    using for_loop_invariant [where Q = ?Q, OF _ projects] by blast
qed


lemma build_fs_directories_alpha:
  "build_fs_directories registry_alpha = Inr directories_alpha"
  by (simp add: build_fs_directories_def registry_alpha_def directories_alpha_def dict_values_def
      fs_directories_user_def fs_directories_group_def fs_directories_project_def group_alpha_def
      project_beta_def carol_def dict_item_def dict_get_def truthy_int_def truthy_float_def
      requested_def strip_prefix_def truthy_str_def startswith_def POSIX_AG_PREFIX_def
      POSIX_PROJECT_PREFIX_def store_directory_def tier_directory_def dict_set_def
      BASE_PATH_TIER1_def BASE_PATH_TIER2_def QUOTA_HOME_BYTES_def Let_def)

lemma list_all2_set1: "list_all2 P xs ys \<Longrightarrow> x \<in> set xs \<Longrightarrow> \<exists>y \<in> set ys. P x y"
  by (induction rule: list_all2_induct) auto

lemma list_all2_set2: "list_all2 P xs ys \<Longrightarrow> y \<in> set ys \<Longrightarrow> \<exists>x \<in> set xs. P x y"
  by (induction rule: list_all2_induct) auto

lemma build_ldap_groups_groups_same:
  "build_ldap_groups_groups users gs n r = Inr (gs', n', r') \<Longrightarrow> list_all2 same_group gs gs'"
proof (induction gs arbitrary: n r gs' n' r')
  case Nil
  then show ?case by simp
next
  case (Cons kg gs)
  obtain k g where kg: "kg = (k, g)" by (cases kg)
  show ?case
  proof (cases "truthy_int (HpcGroup.gid g)")
    case True
    with Cons.prems kg obtain gs1 r1 where
      rec: "build_ldap_groups_groups users gs n r1 = Inr (gs1, n', r')" and gs': "gs' = (k, g) # gs1"
      by (auto simp: Let_def bind_result_eq_Inr split: prod.splits)
    have "same_group (k, g) (k, g)"
      by (auto simp: same_group_def intro: exI [of _ "HpcGroup.gid g"])
    with Cons.IH [OF rec] gs' kg show ?thesis by simp
  next
    case False
    with Cons.prems kg obtain gs1 r1 where
      rec: "build_ldap_groups_groups users gs (n + 1) r1 = Inr (gs1, n', r')"
      and gs': "gs' = (k, g\<lparr>HpcGroup.gid := Some n\<rparr>) # gs1"
      by (auto simp: Let_def bind_result_eq_Inr split: prod.splits)
    have "same_group (k, g) (k, g\<lparr>HpcGroup.gid := Some n\<rparr>)"
      using False by (auto simp: same_group_def)
    with Cons.IH [OF rec] gs' kg show ?thesis by simp
  qed
qed

lemma build_ldap_groups_alpha:
  "build_ldap_groups registry_alpha 1000 =
     Inr (registry_alpha, 1000,
          [(''hpc-ag-alpha'', ldap_team ''alpha'' 5000 (Some carol_dn)),
           (''hpc-prj-beta'',
            \<lparr>LdapGroup.cn = ''hpc-prj-beta'',
             dn = ''cn=hpc-prj-beta,ou=Projects,ou=Groups,dc=hpc,dc=bihealth,dc=org'',
             gid_number = 6000, description = None, owner_dn = Some carol_dn,
             delegate_dns = [], member_uids = []\<rparr>)])"
  by (simp add: build_ldap_groups_def registry_alpha_def dict_item_def dict_get_def dict_set_def
      group_alpha_def project_beta_def carol_def carol_dn_def ldap_team_def truthy_int_def
      user_dn_def endswith_def POSIX_AG_PREFIX_def POSIX_PROJECT_PREFIX_def BASE_DN_GROUPS_def
      BASE_DN_PROJECTS_def BASE_DN_CHARITE_def Let_def)

lemma build_ldap_users_alpha:
  "build_ldap_users registry_alpha = Inr (ldap_users desired_alpha)"
  by (simp add: build_ldap_users_def registry_alpha_def desired_alpha_def dict_values_def
      dict_item_def dict_get_def dict_set_def group_alpha_def carol_def carol_dn_def
      truthy_int_def user_dn_def endswith_def BASE_DN_CHARITE_def BASE_PATH_TIER1_def Let_def)

lemma build_alpha: "build 1000 registry_alpha = Inr desired_alpha"
  unfolding build_def
  by (simp add: build_ldap_groups_alpha build_ldap_users_alpha build_fs_directories_alpha Let_def)
    (simp add: desired_alpha_def dict_set_def dict_values_def ldap_team_def HPC_USERS_GID_def
      HPC_ALUMNIS_GID_def startswith_def)


lemma build_clash:
  "map_sum id fs_directories (build 1000 registry_clash) = Inr directories_clash"
proof -
  have g: "build_ldap_groups registry_clash 1000 =
     Inr (registry_clash, 1000,
          [(''hpc-ag-alpha'', ldap_team ''alpha'' 5000 (Some carol_dn)),
           (''hpc-ag-hpc-ag-alpha'', ldap_team ''hpc-ag-alpha'' 5001 (Some carol_dn))])"
    by (simp add: build_ldap_groups_def registry_clash_def dict_item_def dict_get_def dict_set_def
      group_alpha_def group_alpha3_def carol_def carol_dn_def ldap_team_def truthy_int_def
      user_dn_def endswith_def POSIX_AG_PREFIX_def POSIX_PROJECT_PREFIX_def BASE_DN_GROUPS_def
      BASE_DN_PROJECTS_def BASE_DN_CHARITE_def Let_def)
  have u: "build_ldap_users registry_clash = Inr (ldap_users desired_alpha)"
    by (simp add: build_ldap_users_def registry_clash_def desired_alpha_def dict_values_def
      dict_item_def dict_get_def dict_set_def group_alpha_def carol_def carol_dn_def
      truthy_int_def user_dn_def endswith_def BASE_DN_CHARITE_def BASE_PATH_TIER1_def Let_def)
  have d: "build_fs_directories registry_clash = Inr directories_clash"
    by (simp add: build_fs_directories_def registry_clash_def directories_clash_def dict_values_def
      fs_directories_user_def fs_directories_group_def fs_directories_project_def group_alpha_def
      group_alpha3_def
      carol_def dict_item_def dict_get_def truthy_int_def truthy_float_def
      requested_def strip_prefix_def truthy_str_def startswith_def POSIX_AG_PREFIX_def
      POSIX_PROJECT_PREFIX_def store_directory_def tier_directory_def dict_set_def
      BASE_PATH_TIER1_def BASE_PATH_TIER2_def QUOTA_HOME_BYTES_def Let_def)
  show ?thesis
    unfolding build_def by (simp add: g u d Let_def)
qed

lemma build_pending:
  "\<exists>desired. build 1000 registry_pending = Inr desired"
proof -
  have g: "build_ldap_groups registry_pending 1000 =
     Inr (registry_pending\<lparr>hpc_groups := [(''g-alpha'', group_alpha\<lparr>HpcGroup.gid := Some 1000\<rparr>)]\<rparr>, 1001,
          [(''hpc-ag-alpha'', ldap_team ''alpha'' 1000 (Some carol_dn))])"
    by (simp add: build_ldap_groups_def registry_pending_def dict_item_def dict_get_def dict_set_def
      group_alpha_def carol_def carol_dn_def ldap_team_def truthy_int_def
      user_dn_def endswith_def POSIX_AG_PREFIX_def POSIX_PROJECT_PREFIX_def BASE_DN_GROUPS_def
      BASE_DN_PROJECTS_def BASE_DN_CHARITE_def Let_def)
  have u: "\<exists>us. build_ldap_users
             (registry_pending\<lparr>hpc_groups := [(''g-alpha'', group_alpha\<lparr>HpcGroup.gid := Some 1000\<rparr>)]\<rparr>)
             = Inr us"
    by (simp add: build_ldap_users_def registry_pending_def dict_values_def
      dict_item_def dict_get_def dict_set_def group_alpha_def carol_def carol_dn_def
      truthy_int_def user_dn_def endswith_def BASE_DN_CHARITE_def BASE_PATH_TIER1_def Let_def)
  have d: "\<exists>ds. build_fs_directories
             (registry_pending\<lparr>hpc_groups := [(''g-alpha'', group_alpha\<lparr>HpcGroup.gid := Some 1000\<rparr>)]\<rparr>)
             = Inr ds"
    by (simp add: build_fs_directories_def registry_pending_def dict_values_def
      fs_directories_user_def fs_directories_group_def fs_directories_project_def group_alpha_def
      carol_def dict_item_def dict_get_def truthy_int_def truthy_float_def
      requested_def strip_prefix_def truthy_str_def startswith_def POSIX_AG_PREFIX_def
      POSIX_PROJECT_PREFIX_def store_directory_def tier_directory_def dict_set_def
      BASE_PATH_TIER1_def BASE_PATH_TIER2_def QUOTA_HOME_BYTES_def Let_def)
  from u d show ?thesis
    unfolding build_def by (auto simp: g Let_def)
qed

text \<open>
  Claim C7, as amended. Whenever the builder returns a desired state, take a group of
  the registry (the one at position \<open>i\<close>) that requests 2.0 TB of tier-1 work storage and
  a tier-1 scratch quota other than zero, and whose directory name (its name without the
  prefix \<open>hpc-ag-\<close>) no other group of the registry has. Let \<open>n\<close> be its numeric id after
  the allocation of the same run: the id it has, or, when it has none (no id, or the id
  0), the start value of the counter plus the number of earlier groups that had none. If
  \<open>n\<close> is not zero, the directories of the desired state hold a tier-1 work directory of
  the group with \<open>quota_bytes = 2 * 1024 ^ 4\<close> and a tier-1 home directory with the fixed
  home quota, both with the numeric id \<open>n\<close>.
\<close>

theorem tier1_work_quota_two_terabytes:
  assumes "build next_gid st = Inr desired"
    and "i < length (hpc_groups st)" and "g = snd (hpc_groups st ! i)"
    and "n = (if truthy_int (HpcGroup.gid g) then the (HpcGroup.gid g)
              else next_gid + int (unnumbered (take i (map (\<lambda>kv. HpcGroup.gid (snd kv))
                                                          (hpc_groups st)))))"
    and "n \<noteq> 0"
    and "HpcGroup.resources_requested g = Some rr"
    and "ResourceData.tier1_work rr = 2" and "ResourceData.tier1_scratch rr \<noteq> 0"
    and "\<forall>j < length (hpc_groups st). j \<noteq> i \<longrightarrow>
           strip_prefix (HpcGroup.name (snd (hpc_groups st ! j))) (Some POSIX_AG_PREFIX)
             \<noteq> strip_prefix (HpcGroup.name g) (Some POSIX_AG_PREFIX)"
  shows "\<exists>w h. dict_get (fs_directories desired) (''/data/cephfs-1/work/groups/ag-''
                    @ strip_prefix (HpcGroup.name g) (Some POSIX_AG_PREFIX)) = Some w
           \<and> quota_bytes w = Some (2 * 1024 ^ 4) \<and> group_gid w = n
           \<and> dict_get (fs_directories desired) (''/data/cephfs-1/home/groups/ag-''
                    @ strip_prefix (HpcGroup.name g) (Some POSIX_AG_PREFIX)) = Some h
           \<and> quota_bytes h = Some QUOTA_HOME_BYTES \<and> group_gid h = n"
proof -
  let ?gids = "map (\<lambda>kv. HpcGroup.gid (snd kv)) (hpc_groups st)"
  from assms(1) obtain st' n' lg where
    groups: "build_ldap_groups st next_gid = Inr (st', n', lg)"
    and dirs: "build_fs_directories st' = Inr (fs_directories desired)"
    by (auto simp: build_def Let_def bind_result_eq_Inr split: prod.splits)
  from groups obtain gs1 n1 r1 where
    loop: "build_ldap_groups_groups (hpc_users st) (hpc_groups st) next_gid [] = Inr (gs1, n1, r1)"
    and st': "hpc_groups st' = gs1"
    by (auto simp: build_ldap_groups_def bind_result_eq_Inr split: prod.splits)
  note same = build_ldap_groups_groups_same [OF loop]
  then have len: "length gs1 = length (hpc_groups st)"
    by (simp add: list_all2_lengthD)
  have nth_same: "same_group (hpc_groups st ! j) (gs1 ! j)" if "j < length (hpc_groups st)" for j
    using same that by (rule list_all2_nthD)
  have name_same: "HpcGroup.name (snd (gs1 ! j)) = HpcGroup.name (snd (hpc_groups st ! j))"
    if "j < length (hpc_groups st)" for j
    using nth_same [OF that] unfolding same_group_def by auto
  define g' where "g' = snd (gs1 ! i)"
  from nth_same [OF assms(2)] obtain m where g'_eq: "g' = g\<lparr>HpcGroup.gid := m\<rparr>"
    and kept: "truthy_int (HpcGroup.gid g) \<longrightarrow> g' = g"
    unfolding same_group_def g'_def assms(3) by auto
  from build_ldap_groups_groups_gids [OF loop]
  have "map (\<lambda>kv. HpcGroup.gid (snd kv)) gs1 = spec_allocate next_gid ?gids" by simp
  then have "map (\<lambda>kv. HpcGroup.gid (snd kv)) gs1 ! i = spec_allocate next_gid ?gids ! i" by simp
  with assms(2) len have gid_i: "HpcGroup.gid g' =
      (if truthy_int (HpcGroup.gid g) then HpcGroup.gid g
       else Some (next_gid + int (unnumbered (take i ?gids))))"
    by (simp add: spec_allocate_nth g'_def assms(3))
  have gid': "HpcGroup.gid g' = Some n"
  proof (cases "truthy_int (HpcGroup.gid g)")
    case True
    then obtain x where "HpcGroup.gid g = Some x" by (cases "HpcGroup.gid g") (simp_all add: truthy_int_def)
    with True gid_i assms(4) show ?thesis by simp
  next
    case False
    with gid_i assms(4) show ?thesis by simp
  qed
  have nm: "HpcGroup.name g' = HpcGroup.name g"
    and rr: "HpcGroup.resources_requested g' = Some rr"
    using g'_eq assms(6) by simp_all
  have 1: "g' \<in> set (dict_values (hpc_groups st'))"
    using assms(2) len unfolding g'_def st' dict_values_def by simp
  have 2: "\<forall>g'' \<in> set (dict_values (hpc_groups st')).
           strip_prefix (HpcGroup.name g'') (Some POSIX_AG_PREFIX)
             = strip_prefix (HpcGroup.name g') (Some POSIX_AG_PREFIX) \<longrightarrow> g'' = g'"
  proof (intro ballI impI)
    fix g'' assume g'': "g'' \<in> set (dict_values (hpc_groups st'))"
      and eq: "strip_prefix (HpcGroup.name g'') (Some POSIX_AG_PREFIX)
             = strip_prefix (HpcGroup.name g') (Some POSIX_AG_PREFIX)"
    from g'' obtain j where j: "j < length gs1" and g''_eq: "g'' = snd (gs1 ! j)"
      unfolding st' dict_values_def by (auto simp: in_set_conv_nth)
    from j len have j': "j < length (hpc_groups st)" by simp
    from name_same [OF j'] g''_eq eq nm
    have "strip_prefix (HpcGroup.name (snd (hpc_groups st ! j))) (Some POSIX_AG_PREFIX)
             = strip_prefix (HpcGroup.name g) (Some POSIX_AG_PREFIX)" by simp
    with assms(9) j' have "j = i" by blast
    with g''_eq show "g'' = g'" by (simp add: g'_def)
  qed
  from build_fs_directories_two_terabytes [OF dirs 1 gid' assms(5) rr assms(7,8) 2]
  show ?thesis by (simp add: nm)
qed

theorem tier1_work_quota_two_terabytes_witness:
  "build 1000 registry_alpha = Inr desired_alpha
   \<and> snd (hpc_groups registry_alpha ! 0) = group_alpha
   \<and> (\<exists>w h. dict_get (fs_directories desired_alpha) ''/data/cephfs-1/work/groups/ag-alpha'' = Some w
           \<and> quota_bytes w = Some (2 * 1024 ^ 4) \<and> group_gid w = 5000
           \<and> dict_get (fs_directories desired_alpha) ''/data/cephfs-1/home/groups/ag-alpha'' = Some h
           \<and> quota_bytes h = Some QUOTA_HOME_BYTES \<and> group_gid h = 5000)
   \<and> snd (hpc_groups registry_pending ! 0) = group_alpha\<lparr>HpcGroup.gid := None\<rparr>
   \<and> (\<exists>desired w h. build 1000 registry_pending = Inr desired
           \<and> dict_get (fs_directories desired) ''/data/cephfs-1/work/groups/ag-alpha'' = Some w
           \<and> quota_bytes w = Some (2 * 1024 ^ 4) \<and> group_gid w = 1000
           \<and> dict_get (fs_directories desired) ''/data/cephfs-1/home/groups/ag-alpha'' = Some h
           \<and> quota_bytes h = Some QUOTA_HOME_BYTES \<and> group_gid h = 1000)"
proof -
  let ?rr = "\<lparr>ResourceData.tier1_work = 2, tier1_scratch = 1, tier2_mirrored = 0,
              tier2_unmirrored = 0\<rparr>"
  let ?p = "group_alpha\<lparr>HpcGroup.gid := None\<rparr>"
  have a2: "0 < length (hpc_groups registry_alpha)"
    and a3: "group_alpha = snd (hpc_groups registry_alpha ! 0)"
    by (simp_all add: registry_alpha_def)
  have a4: "5000 = (if truthy_int (HpcGroup.gid group_alpha) then the (HpcGroup.gid group_alpha)
              else 1000 + int (unnumbered (take 0 (map (\<lambda>kv. HpcGroup.gid (snd kv))
                                                          (hpc_groups registry_alpha)))))"
    by (simp add: group_alpha_def truthy_int_def)
  have a5: "(5000::int) \<noteq> 0" by simp
  have a6: "HpcGroup.resources_requested group_alpha = Some ?rr"
    and a7: "ResourceData.tier1_work ?rr = 2" and a8: "ResourceData.tier1_scratch ?rr \<noteq> 0"
    by (simp_all add: group_alpha_def)
  have a9: "\<forall>j < length (hpc_groups registry_alpha). j \<noteq> 0 \<longrightarrow>
           strip_prefix (HpcGroup.name (snd (hpc_groups registry_alpha ! j))) (Some POSIX_AG_PREFIX)
             \<noteq> strip_prefix (HpcGroup.name group_alpha) (Some POSIX_AG_PREFIX)"
    by (simp add: registry_alpha_def)
  have nm: "strip_prefix (HpcGroup.name group_alpha) (Some POSIX_AG_PREFIX) = ''alpha''"
    by (simp add: strip_prefix_def group_alpha_def truthy_str_def startswith_def POSIX_AG_PREFIX_def)
  have kept: "\<exists>w h. dict_get (fs_directories desired_alpha) ''/data/cephfs-1/work/groups/ag-alpha'' = Some w
           \<and> quota_bytes w = Some (2 * 1024 ^ 4) \<and> group_gid w = 5000
           \<and> dict_get (fs_directories desired_alpha) ''/data/cephfs-1/home/groups/ag-alpha'' = Some h
           \<and> quota_bytes h = Some QUOTA_HOME_BYTES \<and> group_gid h = 5000"
    using tier1_work_quota_two_terabytes [OF build_alpha a2 a3 a4 a5 a6 a7 a8 a9]
    by (simp add: nm)
  from build_pending obtain desired where b1: "build 1000 registry_pending = Inr desired" ..
  have b2: "0 < length (hpc_groups registry_pending)"
    and b3: "?p = snd (hpc_groups registry_pending ! 0)"
    by (simp_all add: registry_pending_def)
  have b4: "1000 = (if truthy_int (HpcGroup.gid ?p) then the (HpcGroup.gid ?p)
              else 1000 + int (unnumbered (take 0 (map (\<lambda>kv. HpcGroup.gid (snd kv))
                                                          (hpc_groups registry_pending)))))"
    by (simp add: truthy_int_def)
  have b5: "(1000::int) \<noteq> 0" by simp
  have b6: "HpcGroup.resources_requested ?p = Some ?rr"
    by (simp add: group_alpha_def)
  have b9: "\<forall>j < length (hpc_groups registry_pending). j \<noteq> 0 \<longrightarrow>
           strip_prefix (HpcGroup.name (snd (hpc_groups registry_pending ! j))) (Some POSIX_AG_PREFIX)
             \<noteq> strip_prefix (HpcGroup.name ?p) (Some POSIX_AG_PREFIX)"
    by (simp add: registry_pending_def)
  have nm': "strip_prefix (HpcGroup.name ?p) (Some POSIX_AG_PREFIX) = ''alpha''"
    by (simp add: strip_prefix_def group_alpha_def truthy_str_def startswith_def POSIX_AG_PREFIX_def)
  have allocated: "\<exists>w h. dict_get (fs_directories desired) ''/data/cephfs-1/work/groups/ag-alpha'' = Some w
           \<and> quota_bytes w = Some (2 * 1024 ^ 4) \<and> group_gid w = 1000
           \<and> dict_get (fs_directories desired) ''/data/cephfs-1/home/groups/ag-alpha'' = Some h
           \<and> quota_bytes h = Some QUOTA_HOME_BYTES \<and> group_gid h = 1000"
    using tier1_work_quota_two_terabytes [OF b1 b2 b3 b4 b5 b6 a7 a8 b9]
    by (simp add: nm)
  from allocated b1 have allocated':
    "\<exists>desired w h. build 1000 registry_pending = Inr desired
           \<and> dict_get (fs_directories desired) ''/data/cephfs-1/work/groups/ag-alpha'' = Some w
           \<and> quota_bytes w = Some (2 * 1024 ^ 4) \<and> group_gid w = 1000
           \<and> dict_get (fs_directories desired) ''/data/cephfs-1/home/groups/ag-alpha'' = Some h
           \<and> quota_bytes h = Some QUOTA_HOME_BYTES \<and> group_gid h = 1000"
    by blast
  from build_alpha a3 [symmetric] kept b3 [symmetric] allocated' show ?thesis
    by (intro conjI)
qed

text \<open>
  Claim C7 as stated fails when two groups of the registry have the same directory
  name. The group \<open>alpha\<close> has the numeric id 5000 and requests 2 TB of tier-1 work
  storage and 1 TB of scratch; the group \<open>hpc-ag-alpha\<close>, which the loop visits later,
  writes its directories under the same paths, so the one tier-1 work directory
  \<open>ag-alpha\<close> of the desired state has the quota 3 * 1024 ^ 4 and the numeric id 5001.
\<close>

theorem clashing_directory_names_lose_quota:
  "dict_get (hpc_groups registry_clash) ''g-alpha'' = Some group_alpha
   \<and> HpcGroup.gid group_alpha = Some 5000
   \<and> map_option ResourceData.tier1_work (HpcGroup.resources_requested group_alpha) = Some 2
   \<and> map_option ResourceData.tier1_scratch (HpcGroup.resources_requested group_alpha) = Some 1
   \<and> map_sum id fs_directories (build 1000 registry_clash) = Inr directories_clash
   \<and> map_option quota_bytes (dict_get directories_clash ''/data/cephfs-1/work/groups/ag-alpha'')
       = Some (Some (3 * 1024 ^ 4))"
  by (simp add: build_clash)
    (simp add: registry_clash_def dict_get_def group_alpha_def directories_clash_def
      tier_directory_def)

text \<open>
  Claim C8. Every directory the builder emits for a project should carry that project's
  own name, in the last component of its path and in \<open>group_name\<close>. The loop over the
  projects strips the prefix from \<open>group.name\<close>, the name of the group that the loop
  over the groups visited last, and never reads \<open>project.name\<close>: for a registry with the
  group \<open>alpha\<close> and the project \<open>beta\<close> (numeric id 6000, owned by \<open>alpha\<close>, work and
  scratch quota 1 TB) the three directories of the project are named \<open>alpha\<close>.
\<close>

theorem project_directories_carry_group_name:
  "HpcProject.name project_beta = ''beta''
   \<and> build_fs_directories registry_alpha = Inr directories_alpha"
  by (simp add: build_fs_directories_alpha) (simp add: project_beta_def)

section \<open>The usage-sync command\<close>

text \<open>
  The division is exact below 2 ^ 53: an integer of at most 53 bits is a double.
\<close>

lemma bit_length_le: "a < 2 ^ k \<Longrightarrow> bit_length a \<le> k"
proof (induction k arbitrary: a)
  case 0
  then show ?case by simp
next
  case (Suc k)
  show ?case
  proof (cases "a = 0")
    case True
    then show ?thesis by simp
  next
    case False
    from Suc.prems have "a div 2 < 2 ^ k" by simp
    from Suc.IH [OF this] False show ?thesis by (subst bit_length.simps) simp
  qed
qed

lemma round_sig53_small: "\<bar>n\<bar> < 2 ^ 53 \<Longrightarrow> round_sig53 n = n"
proof -
  assume "\<bar>n\<bar> < 2 ^ 53"
  then have "nat \<bar>n\<bar> < 2 ^ 53" by simp
  then have "bit_length (nat \<bar>n\<bar>) \<le> 53" by (rule bit_length_le)
  then show ?thesis by (simp add: round_sig53_def Let_def del: bit_length.simps)
qed

lemma int_truediv_pow2_small:
  assumes "\<bar>n\<bar> < 2 ^ 53"
  shows "int_truediv_pow2 n k = Inr (real_of_int n / 2 ^ k)"
proof -
  have "(2::int) ^ 53 \<le> 2 ^ (1024 + k)" by (rule power_increasing) simp_all
  with assms have "\<not> 2 ^ (1024 + k) \<le> \<bar>n\<bar>" by linarith
  with assms show ?thesis by (simp add: int_truediv_pow2_def round_sig53_small Let_def)
qed

lemma int_truediv_pow2_five_tb: "int_truediv_pow2 (5 * 1024 ^ 4) 40 = Inr 5"
proof -
  have "\<bar>5 * 1024 ^ 4\<bar> < (2::int) ^ 53" by simp
  from int_truediv_pow2_small [OF this, of 40] show ?thesis by simp
qed

lemma search_scratch_foo:
  "search_RE_PATH ''/data/cephfs-1/scratch/groups/ag-foo''
     = Some (''cephfs-1'', ''scratch'', ''groups'', ''ag-foo'')"
  by (simp add: match_RE_PATH_def startswith_def segment_def slash_then_def)

lemma fs_validation_scratch_foo:
  assumes "path fs = ''/data/cephfs-1/scratch/groups/ag-foo''"
    and "strip_prefix (group_name fs) (Some POSIX_AG_PREFIX) = ''ag-foo''"
  shows "fs_validation fs = Inr (''groups'', ''ag-foo'', ''tier1_scratch'')"
  using assms
  by (simp add: fs_validation_def search_scratch_foo ENTITIES_def ENTITY_USERS_def ENTITY_GROUPS_def
      ENTITY_PROJECTS_def dict_item_def dict_get_def PREFIX_MAPPING_def
      CEPHFS_TIER_MAPPING_def del: search_RE_PATH.simps)

lemma foldl_dict_set_get:
  "(\<forall>d \<in> set ds. f d = x \<longrightarrow> h d = k) \<Longrightarrow>
   dict_get (foldl (\<lambda>m d. dict_set m (f d) (h d)) m0 ds) x
     = (if \<exists>d \<in> set ds. f d = x then Some k else dict_get m0 x)"
  by (induction ds arbitrary: m0) (auto simp: dict_get_dict_set)

lemma foldl_dict_set_source:
  "dict_get (foldl (\<lambda>m d. dict_set m (f d) (h d)) m0 ds) x = Some k \<Longrightarrow>
   dict_get m0 x = Some k \<or> (\<exists>d \<in> set ds. f d = x \<and> h d = k)"
proof (induction ds arbitrary: m0)
  case Nil
  then show ?case by simp
next
  case (Cons d ds)
  from Cons.IH [of "dict_set m0 (f d) (h d)"] Cons.prems
  show ?case by (auto simp: dict_get_dict_set split: if_splits)
qed

lemma dict_values_reset_groups:
  "dict_values (hpc_groups (reset_usage dst))
     = map (\<lambda>d. d\<lparr>HpcGroup.resources_used := Some (Plain [])\<rparr>) (dict_values (hpc_groups dst))"
  by (simp add: reset_usage_def dict_values_def case_prod_unfold)

lemma dict_get_reset_groups:
  "dict_get (hpc_groups (reset_usage dst)) k
     = map_option (\<lambda>d. d\<lparr>HpcGroup.resources_used := Some (Plain [])\<rparr>) (dict_get (hpc_groups dst) k)"
  by (simp add: reset_usage_def dict_get_def map_of_map)

lemma dict_get_in_values: "dict_get d k = Some v \<Longrightarrow> v \<in> set (dict_values d)"
  by (auto simp: dict_get_def dict_values_def dest: map_of_SomeD intro: rev_image_eqI)

lemma usage_index_groups:
  "dict_get (usage_index (reset_usage dst)) ''groups''
     = Some (foldl (\<lambda>m d. dict_set m (HpcGroup.name d) (HpcGroup.uuid d)) []
              (dict_values (hpc_groups dst)))"
  by (simp add: usage_index_def dict_get_def dict_values_reset_groups foldl_map)

lemma usage_index_group:
  assumes "dict_get (hpc_groups dst) k = Some g" and "HpcGroup.name g = nm"
    and "\<forall>g' \<in> set (dict_values (hpc_groups dst)). HpcGroup.name g' = nm \<longrightarrow> HpcGroup.uuid g' = k"
  shows "dict_get (case dict_get (usage_index (reset_usage dst)) ''groups'' of None \<Rightarrow> [] | Some m \<Rightarrow> m) nm
           = Some k"
proof -
  from assms(1) have "g \<in> set (dict_values (hpc_groups dst))" by (rule dict_get_in_values)
  with assms(2) have ex: "\<exists>d \<in> set (dict_values (hpc_groups dst)). HpcGroup.name d = nm" by blast
  with foldl_dict_set_get [of "dict_values (hpc_groups dst)" HpcGroup.name nm HpcGroup.uuid k "[]"]
    assms(3)
  show ?thesis by (simp add: usage_index_groups)
qed

lemma usage_index_group_source:
  assumes "dict_get (case dict_get (usage_index (reset_usage dst)) ''groups'' of None \<Rightarrow> [] | Some m \<Rightarrow> m)
             folder = Some k"
  shows "\<exists>d \<in> set (dict_values (hpc_groups dst)). HpcGroup.name d = folder \<and> HpcGroup.uuid d = k"
proof -
  from assms have "dict_get (foldl (\<lambda>m d. dict_set m (HpcGroup.name d) (HpcGroup.uuid d)) []
              (dict_values (hpc_groups dst))) folder = Some k"
    by (simp add: usage_index_groups)
  from foldl_dict_set_source [OF this] show ?thesis by (simp add: dict_get_def)
qed

text \<open>
  One step of the fold, for each kind of entity: the observed bytes are divided by
  2 ^ 30 for a user and by 2 ^ 40 for a group or a project, the quotient is stored under
  the resource of the directory, and the other entries of the record's mapping stay.
\<close>

lemma fold_usage_users:
  assumes "fs_validation fs = Inr (''users'', folder, resource)"
    and "dict_get (case dict_get idx ''users'' of None \<Rightarrow> [] | Some m \<Rightarrow> m) folder = Some k"
    and "rbytes fs = Some n"
    and "int_truediv_pow2 n 30 = Inr v"
    and "dict_get (hpc_users st) k = Some d"
    and "HpcUser.resources_used d = Some (Plain m)"
  shows "fold_usage idx fs st =
           Inr (st\<lparr>hpc_users := dict_set (hpc_users st) k
                  (d\<lparr>HpcUser.resources_used := Some (Plain (dict_set m resource v))\<rparr>)\<rparr>)"
  using assms
  by (simp add: fold_usage_def dict_item_def set_used_def ENTITY_USERS_def)

lemma fold_usage_groups:
  assumes "fs_validation fs = Inr (''groups'', folder, resource)"
    and "dict_get (case dict_get idx ''groups'' of None \<Rightarrow> [] | Some m \<Rightarrow> m) folder = Some k"
    and "rbytes fs = Some n"
    and "int_truediv_pow2 n 40 = Inr v"
    and "dict_get (hpc_groups st) k = Some d"
    and "HpcGroup.resources_used d = Some (Plain m)"
  shows "fold_usage idx fs st =
           Inr (st\<lparr>hpc_groups := dict_set (hpc_groups st) k
                  (d\<lparr>HpcGroup.resources_used := Some (Plain (dict_set m resource v))\<rparr>)\<rparr>)"
  using assms
  by (simp add: fold_usage_def dict_item_def set_used_def ENTITY_USERS_def)

lemma fold_usage_projects:
  assumes "fs_validation fs = Inr (''projects'', folder, resource)"
    and "dict_get (case dict_get idx ''projects'' of None \<Rightarrow> [] | Some m \<Rightarrow> m) folder = Some k"
    and "rbytes fs = Some n"
    and "int_truediv_pow2 n 40 = Inr v"
    and "dict_get (hpc_projects st) k = Some d"
    and "HpcProject.resources_used d = Some (Plain m)"
  shows "fold_usage idx fs st =
           Inr (st\<lparr>hpc_projects := dict_set (hpc_projects st) k
                  (d\<lparr>HpcProject.resources_used := Some (Plain (dict_set m resource v))\<rparr>)\<rparr>)"
  using assms
  by (simp add: fold_usage_def dict_item_def set_used_def ENTITY_USERS_def)

lemma set_used_eq_Inr:
  "set_used used resource v = Inr u \<longleftrightarrow>
     (\<exists>m. used = Some (Plain m) \<and> u = Some (Plain (dict_set m resource v)))"
  by (auto simp: set_used_def split: option.splits resources.splits)

lemma dict_item_eq_Inr: "dict_item d k = Inr v \<longleftrightarrow> dict_get d k = Some v"
  by (simp add: dict_item_def split: option.splits)

lemma fold_usage_groups_step:
  assumes "fold_usage idx fs st = Inr st'"
  shows "hpc_groups st' = hpc_groups st \<or>
     (\<exists>folder resource k n v d m.
        fs_validation fs = Inr (''groups'', folder, resource)
        \<and> dict_get (case dict_get idx ''groups'' of None \<Rightarrow> [] | Some m \<Rightarrow> m) folder = Some k
        \<and> rbytes fs = Some n \<and> int_truediv_pow2 n 40 = Inr v
        \<and> dict_get (hpc_groups st) k = Some d \<and> HpcGroup.resources_used d = Some (Plain m)
        \<and> hpc_groups st' = dict_set (hpc_groups st) k
             (d\<lparr>HpcGroup.resources_used := Some (Plain (dict_set m resource v))\<rparr>))"
proof (cases "fs_validation fs")
  case (Inl e)
  with assms show ?thesis by (cases e) (simp_all add: fold_usage_def)
next
  case (Inr t)
  obtain entity folder resource where t: "t = (entity, folder, resource)" by (cases t)
  show ?thesis
  proof (cases "dict_get (case dict_get idx entity of None \<Rightarrow> [] | Some m \<Rightarrow> m) folder")
    case None
    with assms Inr t show ?thesis by (simp add: fold_usage_def)
  next
    case (Some k)
    show ?thesis
    proof (cases "rbytes fs")
      case None
      with assms Inr t Some show ?thesis by (simp add: fold_usage_def)
    next
      case (Some n)
      note n = this
      show ?thesis
      proof (cases "entity = ''groups''")
        case True
        with assms Inr t \<open>dict_get _ folder = Some k\<close> n show ?thesis
          by (auto simp: fold_usage_def ENTITY_USERS_def bind_result_eq_Inr set_used_eq_Inr
              dict_item_eq_Inr)
      next
        case False
        with assms Inr t \<open>dict_get _ folder = Some k\<close> n show ?thesis
          by (auto simp: fold_usage_def ENTITY_USERS_def bind_result_eq_Inr split: if_splits)
      qed
    qed
  qed
qed

lemma set_dict_set: "set (dict_set m k v) \<subseteq> insert (k, v) (set m)"
  unfolding dict_set_def by (induction m) auto

lemma fst_set_dict_set: "fst ` set (dict_set m k v) = insert k (fst ` set m)"
  unfolding dict_set_def by (induction m) auto

lemma for_loop_establish_from:
  assumes "x \<in> set xs" and "I s"
    and "\<And>y s s'. y \<in> set xs \<Longrightarrow> body y s = Inr s' \<Longrightarrow> I s \<Longrightarrow> I s'"
    and "\<And>s s'. body x s = Inr s' \<Longrightarrow> I s \<Longrightarrow> Q s'"
    and "\<And>y s s'. y \<in> set xs \<Longrightarrow> body y s = Inr s' \<Longrightarrow> Q s \<Longrightarrow> Q s'"
    and "for_loop body xs s = Inr s'"
  shows "Q s'"
  using assms(1,2,3,5,6)
proof (induction xs arbitrary: s)
  case Nil
  then show ?case by simp
next
  case (Cons y ys)
  from Cons.prems(5) obtain s1 where 1: "body y s = Inr s1" and 2: "for_loop body ys s1 = Inr s'"
    by (auto split: sum.splits)
  have inv: "\<And>z t t'. z \<in> set ys \<Longrightarrow> body z t = Inr t' \<Longrightarrow> I t \<Longrightarrow> I t'"
    using Cons.prems(3) by (meson list.set_intros(2))
  have keep: "\<And>z t t'. z \<in> set ys \<Longrightarrow> body z t = Inr t' \<Longrightarrow> Q t \<Longrightarrow> Q t'"
    using Cons.prems(4) by (meson list.set_intros(2))
  have I1: "I s1"
    using Cons.prems(3) [of y s s1] 1 Cons.prems(2) by simp
  show ?case
  proof (cases "x = y")
    case True
    with 1 assms(4) Cons.prems(2) have "Q s1" by blast
    with for_loop_invariant [of ys body Q s1 s', OF keep 2] show ?thesis by simp
  next
    case False
    with Cons.prems(1) have "x \<in> set ys" by simp
    from Cons.IH [OF this I1 inv keep 2] show ?thesis .
  qed
qed

lemma fs_validation_work_foo:
  "fs_validation work_foo = Inr (''groups'', ''ag-foo'', ''tier1_work'')"
  by (simp add: fs_validation_def work_foo_def match_RE_PATH_def startswith_def segment_def
      slash_then_def ENTITIES_def ENTITY_USERS_def ENTITY_GROUPS_def
      ENTITY_PROJECTS_def dict_item_def dict_get_def PREFIX_MAPPING_def strip_prefix_def
      truthy_str_def POSIX_AG_PREFIX_def POSIX_PROJECT_PREFIX_def CEPHFS_TIER_MAPPING_def)

lemma fs_validation_scratch_foo_example:
  "fs_validation scratch_foo = Inr (''groups'', ''ag-foo'', ''tier1_scratch'')"
  by (rule fs_validation_scratch_foo)
    (simp_all add: scratch_foo_def strip_prefix_def truthy_str_def POSIX_AG_PREFIX_def
      startswith_def)

lemma sync_foo_work:
  "sync_storage_usage False state_foo_work registry_foo =
     Inr (registry_foo\<lparr>hpc_groups :=
            [(''g-foo'', group_foo\<lparr>HpcGroup.resources_used :=
                           Some (Plain [(''tier1_scratch'', 5), (''tier1_work'', 1)])\<rparr>)]\<rparr>,
          Some (registry_foo\<lparr>hpc_groups :=
            [(''g-foo'', group_foo\<lparr>HpcGroup.resources_used :=
                           Some (Plain [(''tier1_scratch'', 5), (''tier1_work'', 1)])\<rparr>)]\<rparr>))"
proof -
  have rb: "rbytes scratch_foo = Some 5497558138880" "rbytes work_foo = Some 1099511627776"
    by (simp_all add: scratch_foo_def work_foo_def)
  have q: "int_truediv_pow2 5497558138880 40 = Inr 5" "int_truediv_pow2 1099511627776 40 = Inr 1"
    by (simp_all add: int_truediv_pow2_small)
  show ?thesis
    by (simp add: sync_storage_usage_def Let_def dict_values_def fold_usage_def state_foo_work_def
      fs_validation_scratch_foo_example fs_validation_work_foo rb q
      usage_index_def reset_usage_def dict_get_def dict_set_def
      dict_item_def ENTITY_USERS_def set_used_def registry_foo_def group_foo_def)
qed

text \<open>
  Claim C9, as amended. Take a usage sync that returns, a directory of the current
  state with the path \<open>/data/cephfs-1/scratch/groups/ag-foo\<close> and 5 * 1024 ^ 4 observed
  bytes whose Unix group name, without the prefix \<open>hpc-ag-\<close>, is \<open>ag-foo\<close> (any other
  group name fails the validation with a name mismatch, and the directory is skipped),
  and a registry group named \<open>ag-foo\<close>, stored under its uuid, which no group of another
  name has and every group of that name has. Provided every directory of the current
  state that the validation assigns to the tier-1 scratch usage of \<open>ag-foo\<close> holds the
  same number of bytes, the group ends with \<open>tier1_scratch = 5.0\<close> (observed bytes
  divided by 2 ^ 40) in \<open>resources_used\<close> and is otherwise unchanged. Its other usage
  fields are not left as they were: the command first resets the usage of every registry
  record to an empty mapping, so \<open>resources_used\<close> holds, besides tier-1 scratch, only
  what this run folds into it from a directory of the current state that the validation
  assigns to \<open>ag-foo\<close>. The state is pushed to the registry unless this is a dry run.
\<close>

theorem usage_fold_resets_other_fields:
  assumes "sync_storage_usage dry src dst = Inr (dst', pushed)"
    and "fs \<in> set (dict_values (fs_directories src))"
    and "path fs = ''/data/cephfs-1/scratch/groups/ag-foo''"
    and "strip_prefix (group_name fs) (Some POSIX_AG_PREFIX) = ''ag-foo''"
    and "rbytes fs = Some (5 * 1024 ^ 4)"
    and "\<forall>fs' \<in> set (dict_values (fs_directories src)).
           fs_validation fs' = Inr (''groups'', ''ag-foo'', ''tier1_scratch'')
           \<longrightarrow> rbytes fs' = Some (5 * 1024 ^ 4)"
    and "dict_get (hpc_groups dst) k = Some g"
    and "HpcGroup.name g = ''ag-foo''"
    and "\<forall>g' \<in> set (dict_values (hpc_groups dst)).
           (HpcGroup.uuid g' = k) = (HpcGroup.name g' = ''ag-foo'')"
  shows "pushed = (if \<not> dry then Some dst' else None)
     \<and> (\<exists>m. dict_get (hpc_groups dst') k = Some (g\<lparr>HpcGroup.resources_used := Some (Plain m)\<rparr>)
            \<and> dict_get m ''tier1_scratch'' = Some 5
            \<and> (\<forall>(r, v) \<in> set m.
                  \<exists>fs' \<in> set (dict_values (fs_directories src)). \<exists>n.
                    fs_validation fs' = Inr (''groups'', ''ag-foo'', r)
                    \<and> rbytes fs' = Some n \<and> int_truediv_pow2 n 40 = Inr v))"
proof -
  let ?dirs = "dict_values (fs_directories src)"
  let ?idx = "usage_index (reset_usage dst)"
  let ?groups = "case dict_get ?idx ''groups'' of None \<Rightarrow> [] | Some m \<Rightarrow> m"
  define folded where "folded = (\<lambda>r v. \<exists>fs' \<in> set ?dirs. \<exists>n.
      fs_validation fs' = Inr (''groups'', ''ag-foo'', r)
      \<and> rbytes fs' = Some n \<and> int_truediv_pow2 n 40 = Inr v)"
  define P where "P = (\<lambda>b (st :: HpcaccessState). \<exists>m.
      dict_get (hpc_groups st) k = Some (g\<lparr>HpcGroup.resources_used := Some (Plain m)\<rparr>)
      \<and> (\<forall>(r, v) \<in> set m. folded r v) \<and> (b \<longrightarrow> ''tier1_scratch'' \<in> fst ` set m))"
  from assms(1) have loop: "for_loop (fold_usage ?idx) ?dirs (reset_usage dst) = Inr dst'"
    and pushed: "pushed = (if \<not> dry then Some dst' else None)"
    by (auto simp: sync_storage_usage_def Let_def bind_result_eq_Inr)
  have valid: "fs_validation fs = Inr (''groups'', ''ag-foo'', ''tier1_scratch'')"
    using assms(3,4) by (rule fs_validation_scratch_foo)
  have idx_k: "dict_get ?groups ''ag-foo'' = Some k"
    using assms(9) by (intro usage_index_group [OF assms(7,8)]) blast
  have idx_only: "folder = ''ag-foo''" if "dict_get ?groups folder = Some k" for folder
    using usage_index_group_source [OF that] assms(9) by auto
  have start: "P False (reset_usage dst)"
    unfolding P_def using assms(7) by (intro exI [of _ "[]"]) (simp add: dict_get_reset_groups)
  have step: "P b s'"
    if y: "y \<in> set ?dirs" and run: "fold_usage ?idx y s = Inr s'" and P: "P b s" for b y s s'
  proof -
    from P obtain m where m: "dict_get (hpc_groups s) k
                               = Some (g\<lparr>HpcGroup.resources_used := Some (Plain m)\<rparr>)"
      and entries: "\<forall>(r, v) \<in> set m. folded r v"
      and key: "b \<longrightarrow> ''tier1_scratch'' \<in> fst ` set m"
      unfolding P_def by blast
    from fold_usage_groups_step [OF run] show ?thesis
    proof (elim disjE exE conjE)
      assume "hpc_groups s' = hpc_groups s"
      with P show ?thesis unfolding P_def by simp
    next
      fix folder resource k' n v d m'
      assume v: "fs_validation y = Inr (''groups'', folder, resource)"
        and k': "dict_get ?groups folder = Some k'"
        and n: "rbytes y = Some n" and q: "int_truediv_pow2 n 40 = Inr v"
        and d: "dict_get (hpc_groups s) k' = Some d"
        and m': "HpcGroup.resources_used d = Some (Plain m')"
        and s': "hpc_groups s' = dict_set (hpc_groups s) k'
                   (d\<lparr>HpcGroup.resources_used := Some (Plain (dict_set m' resource v))\<rparr>)"
      show ?thesis
      proof (cases "k' = k")
        case False
        with s' have "dict_get (hpc_groups s') k = dict_get (hpc_groups s) k"
          by (simp add: dict_get_dict_set)
        with P show ?thesis unfolding P_def by simp
      next
        case True
        with d m have d_eq: "d = g\<lparr>HpcGroup.resources_used := Some (Plain m)\<rparr>" by simp
        with m' have [simp]: "m' = m" by simp
        from True k' have folder: "folder = ''ag-foo''" by (intro idx_only) simp
        with y v n q have new: "folded resource v" unfolding folded_def by blast
        have "dict_get (hpc_groups s') k
                = Some (g\<lparr>HpcGroup.resources_used := Some (Plain (dict_set m resource v))\<rparr>)"
          using s' True d_eq by (simp add: dict_get_dict_set)
        moreover have "\<forall>(r, v') \<in> set (dict_set m resource v). folded r v'"
          using entries new set_dict_set [of m resource v] by auto
        moreover have "b \<longrightarrow> ''tier1_scratch'' \<in> fst ` set (dict_set m resource v)"
          using key by (simp add: fst_set_dict_set)
        ultimately show ?thesis unfolding P_def by blast
      qed
    qed
  qed
  have establish: "P True s'" if run: "fold_usage ?idx fs s = Inr s'" and P: "P False s" for s s'
  proof -
    from P obtain m where m: "dict_get (hpc_groups s) k
                               = Some (g\<lparr>HpcGroup.resources_used := Some (Plain m)\<rparr>)"
      and entries: "\<forall>(r, v) \<in> set m. folded r v"
      unfolding P_def by blast
    have new: "folded ''tier1_scratch'' 5"
      unfolding folded_def using assms(2,5) valid int_truediv_pow2_five_tb by blast
    have "HpcGroup.resources_used (g\<lparr>HpcGroup.resources_used := Some (Plain m)\<rparr>) = Some (Plain m)"
      by simp
    from fold_usage_groups [OF valid idx_k assms(5) int_truediv_pow2_five_tb m this] run
    have "hpc_groups s' = dict_set (hpc_groups s) k
            (g\<lparr>HpcGroup.resources_used := Some (Plain (dict_set m ''tier1_scratch'' 5))\<rparr>)"
      by auto
    then have "dict_get (hpc_groups s') k
                = Some (g\<lparr>HpcGroup.resources_used := Some (Plain (dict_set m ''tier1_scratch'' 5))\<rparr>)"
      by (simp add: dict_get_dict_set)
    moreover have "\<forall>(r, v') \<in> set (dict_set m ''tier1_scratch'' 5). folded r v'"
      using entries new set_dict_set [of m "''tier1_scratch''" 5] by auto
    moreover have "''tier1_scratch'' \<in> fst ` set (dict_set m ''tier1_scratch'' 5)"
      by (simp add: fst_set_dict_set)
    ultimately show ?thesis unfolding P_def by blast
  qed
  have "P True dst'"
    by (rule for_loop_establish_from [where I = "P False" and Q = "P True",
          OF assms(2) start step establish step loop])
  then obtain m where m: "dict_get (hpc_groups dst') k
                               = Some (g\<lparr>HpcGroup.resources_used := Some (Plain m)\<rparr>)"
    and entries: "\<forall>(r, v) \<in> set m. folded r v"
    and key: "''tier1_scratch'' \<in> fst ` set m"
    unfolding P_def by blast
  from key obtain v where v: "dict_get m ''tier1_scratch'' = Some v"
    by (metis dict_get_def domIff dom_map_of_conv_image_fst not_Some_eq)
  then have "(''tier1_scratch'', v) \<in> set m"
    by (simp add: dict_get_def map_of_SomeD)
  with entries have "folded ''tier1_scratch'' v" by blast
  then obtain fs' n where "fs' \<in> set ?dirs"
    and "fs_validation fs' = Inr (''groups'', ''ag-foo'', ''tier1_scratch'')"
    and "rbytes fs' = Some n" and q: "int_truediv_pow2 n 40 = Inr v"
    unfolding folded_def by blast
  with assms(6) have "n = 5 * 1024 ^ 4" by auto
  with q int_truediv_pow2_five_tb have "v = 5" by simp
  with v m entries pushed show ?thesis unfolding folded_def by blast
qed

theorem usage_fold_resets_other_fields_witness:
  "sync_storage_usage False state_foo_work registry_foo =
     Inr (registry_foo\<lparr>hpc_groups :=
            [(''g-foo'', group_foo\<lparr>HpcGroup.resources_used :=
                           Some (Plain [(''tier1_scratch'', 5), (''tier1_work'', 1)])\<rparr>)]\<rparr>,
          Some (registry_foo\<lparr>hpc_groups :=
            [(''g-foo'', group_foo\<lparr>HpcGroup.resources_used :=
                           Some (Plain [(''tier1_scratch'', 5), (''tier1_work'', 1)])\<rparr>)]\<rparr>))
   \<and> scratch_foo \<in> set (dict_values (fs_directories state_foo_work))
   \<and> dict_get (hpc_groups registry_foo) ''g-foo'' = Some group_foo
   \<and> (\<exists>m. dict_get (hpc_groups (registry_foo\<lparr>hpc_groups :=
            [(''g-foo'', group_foo\<lparr>HpcGroup.resources_used :=
                           Some (Plain [(''tier1_scratch'', 5), (''tier1_work'', 1)])\<rparr>)]\<rparr>)) ''g-foo''
             = Some (group_foo\<lparr>HpcGroup.resources_used := Some (Plain m)\<rparr>)
          \<and> dict_get m ''tier1_scratch'' = Some 5)"
proof -
  have 2: "scratch_foo \<in> set (dict_values (fs_directories state_foo_work))"
    by (simp add: state_foo_work_def dict_values_def)
  have 3: "path scratch_foo = ''/data/cephfs-1/scratch/groups/ag-foo''"
    and 5: "rbytes scratch_foo = Some (5 * 1024 ^ 4)"
    by (simp_all add: scratch_foo_def)
  have 4: "strip_prefix (group_name scratch_foo) (Some POSIX_AG_PREFIX) = ''ag-foo''"
    by (simp add: scratch_foo_def strip_prefix_def truthy_str_def POSIX_AG_PREFIX_def startswith_def)
  have 6: "\<forall>fs' \<in> set (dict_values (fs_directories state_foo_work)).
           fs_validation fs' = Inr (''groups'', ''ag-foo'', ''tier1_scratch'')
           \<longrightarrow> rbytes fs' = Some (5 * 1024 ^ 4)"
    using 5 by (simp add: state_foo_work_def dict_values_def fs_validation_work_foo)
  have 7: "dict_get (hpc_groups registry_foo) ''g-foo'' = Some group_foo"
    by (simp add: registry_foo_def dict_get_def)
  have 8: "HpcGroup.name group_foo = ''ag-foo''"
    by (simp add: group_foo_def)
  have 9: "\<forall>g' \<in> set (dict_values (hpc_groups registry_foo)).
             (HpcGroup.uuid g' = ''g-foo'') = (HpcGroup.name g' = ''ag-foo'')"
    by (simp add: registry_foo_def dict_values_def group_foo_def)
  from usage_fold_resets_other_fields [OF sync_foo_work 2 3 4 5 6 7 8 9] sync_foo_work 2 7
  show ?thesis by blast
qed

text \<open>
  Claim C9 as stated fails: a group that had used 3 TB of tier-1 work storage before
  the sync has no entry for tier-1 work after it.
\<close>

theorem usage_fold_drops_prior_usage:
  "HpcGroup.resources_used group_foo =
     Some (Model \<lparr>ResourceData.tier1_work = 3, tier1_scratch = 0, tier2_mirrored = 0,
                  tier2_unmirrored = 0\<rparr>)
   \<and> sync_storage_usage True state_foo registry_foo =
       Inr (registry_foo\<lparr>hpc_groups :=
              [(''g-foo'', group_foo\<lparr>HpcGroup.resources_used := Some (Plain [(''tier1_scratch'', 5)])\<rparr>)]\<rparr>,
            None)"
proof -
  have rb: "rbytes scratch_foo = Some 5497558138880"
    by (simp add: scratch_foo_def)
  have q: "int_truediv_pow2 5497558138880 40 = Inr 5"
    by (simp add: int_truediv_pow2_small)
  show ?thesis
    by (simp add: sync_storage_usage_def Let_def dict_values_def fold_usage_def state_foo_def
      fs_validation_scratch_foo_example rb q usage_index_def reset_usage_def dict_get_def
      dict_set_def dict_item_def ENTITY_USERS_def set_used_def registry_foo_def group_foo_def)
qed

end
